theory Spec2Isabelle
  imports Complex_Main
begin

unbundle bit_operations_syntax

chapter \<open>The crash game: outcome generator, round store and bet ledger\<close>

text \<open>
  A shallow embedding of the backend of the crash game: \<^verbatim>\<open>utils/provablyFair.ts\<close>,
  \<^verbatim>\<open>utils/gameAlgorithm.ts\<close>, \<^verbatim>\<open>config/gameConfig.ts\<close>,
  \<^verbatim>\<open>services/game.service.ts\<close>, \<^verbatim>\<open>services/bet.service.ts\<close> and the
  \<^verbatim>\<open>getRound\<close> handler of \<^verbatim>\<open>api/controllers/game.controller.ts\<close>.
  The database is an explicit state; a Prisma transaction is a function on that state
  whose failure leaves the state as it was.
\<close>

section \<open>JavaScript numbers\<close>

text \<open>
  A JavaScript \<^verbatim>\<open>number\<close> is an IEEE-754 binary64 value. A finite one is modelled by
  the real number it denotes; every arithmetic operator returns the exact result rounded
  to the nearest value with a 53-bit significand, ties to even (\<open>fl\<close>). The exponent
  range is not bounded in the model: the stakes, multipliers and payouts of the game stay
  far inside the normal range of binary64. NaN appears in one place only, the result of
  \<^verbatim>\<open>parseInt\<close>, and is modelled there by \<open>None\<close>.
\<close>

type_synonym number = real

fun bitlen_nat :: "nat \<Rightarrow> nat" where
  "bitlen_nat n = (if n = 0 then 0 else Suc (bitlen_nat (n div 2)))"

declare bitlen_nat.simps [simp del]

definition pow2 :: "int \<Rightarrow> real" where
  "pow2 e = (if 0 \<le> e then 2 ^ nat e else 1 / 2 ^ nat (- e))"

text \<open>For \<open>a > 0\<close>, \<open>binexp a\<close> is the exponent \<open>e\<close> with \<open>2 ^ e \<le> a < 2 ^ (e + 1)\<close>.\<close>

definition binexp :: "real \<Rightarrow> int" where
  "binexp a = (if 1 \<le> a then int (bitlen_nat (nat \<lfloor>a\<rfloor>)) - 1
               else - int (bitlen_nat (nat (\<lceil>1 / a\<rceil> - 1))))"

definition ties_even :: "real \<Rightarrow> int \<Rightarrow> int" where
  "ties_even x f = (if x - of_int f < 1 / 2 then f else if 1 / 2 < x - of_int f then f + 1
                    else if even f then f else f + 1)"

definition roundTiesToEven :: "real \<Rightarrow> int" where
  "roundTiesToEven x = ties_even x \<lfloor>x\<rfloor>"

definition round_at :: "real \<Rightarrow> real \<Rightarrow> real" where
  "round_at u x = of_int (roundTiesToEven (x / u)) * u"

definition fl :: "real \<Rightarrow> number" where
  "fl x = (if x = 0 then 0 else round_at (pow2 (binexp \<bar>x\<bar> - 52)) x)"

text \<open>The operators \<^verbatim>\<open>+ - * /\<close> on numbers (the divisor is never zero where \<open>fdiv\<close> is used).\<close>

definition fadd :: "number \<Rightarrow> number \<Rightarrow> number" where
  "fadd a b = fl (a + b)"

definition fsub :: "number \<Rightarrow> number \<Rightarrow> number" where
  "fsub a b = fl (a - b)"

definition fmul :: "number \<Rightarrow> number \<Rightarrow> number" where
  "fmul a b = fl (a * b)"

definition fdiv :: "number \<Rightarrow> number \<Rightarrow> number" where
  "fdiv a b = fl (a / b)"

text \<open>\<^verbatim>\<open>Math.floor\<close>, and \<^verbatim>\<open>Math.round\<close>, which rounds a half towards plus infinity.\<close>

definition Math_floor :: "number \<Rightarrow> int" where
  "Math_floor x = \<lfloor>x\<rfloor>"

definition Math_round :: "number \<Rightarrow> int" where
  "Math_round x = \<lfloor>x + 1 / 2\<rfloor>"

subsection \<open>Decimal values\<close>

text \<open>
  A \<^verbatim>\<open>Decimal\<close> (decimal.js, and the \<^verbatim>\<open>DECIMAL\<close> columns of the database) is an exact
  decimal fraction, modelled by the real number it denotes; the arithmetic the database
  does on it (\<^verbatim>\<open>increment\<close>, \<^verbatim>\<open>decrement\<close>, unary minus, comparison) is exact; a value is
  rounded when it is stored in a column.

  \<^verbatim>\<open>new Decimal(x)\<close> of a number reads the digits of \<^verbatim>\<open>x.toString()\<close>: the decimal with
  the fewest significant digits (at most 17) that rounds to \<open>x\<close>, the closest to \<open>x\<close>
  among those and, of two equally close ones, the one with the even last digit.
  \<^verbatim>\<open>d.toNumber()\<close> is the number nearest to \<open>d\<close>.
\<close>

fun digits10 :: "nat \<Rightarrow> nat" where
  "digits10 n = (if n = 0 then 0 else Suc (digits10 (n div 10)))"

declare digits10.simps [simp del]

definition pow10 :: "int \<Rightarrow> real" where
  "pow10 e = (if 0 \<le> e then 10 ^ nat e else 1 / 10 ^ nat (- e))"

text \<open>For \<open>a > 0\<close>, \<open>decexp a\<close> is the \<open>n\<close> with \<open>10 ^ (n - 1) \<le> a < 10 ^ n\<close>.\<close>

definition decexp :: "real \<Rightarrow> int" where
  "decexp a = (if 1 \<le> a then int (digits10 (nat \<lfloor>a\<rfloor>))
               else 1 - int (digits10 (nat (\<lceil>1 / a\<rceil> - 1))))"

definition nearest_multiple :: "real \<Rightarrow> real \<Rightarrow> real" where
  "nearest_multiple u x = of_int (roundTiesToEven (x / u)) * u"

definition other_multiple :: "real \<Rightarrow> real \<Rightarrow> real" where
  "other_multiple u x =
     (if roundTiesToEven (x / u) = \<lfloor>x / u\<rfloor> then (of_int \<lfloor>x / u\<rfloor> + 1) * u
      else of_int \<lfloor>x / u\<rfloor> * u)"

text \<open>
  \<open>shortest_decimal j x n\<close> tries \<open>18 - j\<close>, \<open>19 - j\<close>, ... significant digits, up to 17,
  for \<open>x > 0\<close> with \<open>n = decexp x\<close>.
\<close>

fun shortest_decimal :: "nat \<Rightarrow> real \<Rightarrow> int \<Rightarrow> real" where
  "shortest_decimal j x n =
     (if j = 0 then x
      else if fl (nearest_multiple (pow10 (n + int j - 18)) x) = x
        then nearest_multiple (pow10 (n + int j - 18)) x
      else if fl (other_multiple (pow10 (n + int j - 18)) x) = x
        then other_multiple (pow10 (n + int j - 18)) x
      else shortest_decimal (j - 1) x n)"

declare shortest_decimal.simps [simp del]

definition Decimal_of_number :: "number \<Rightarrow> real" where
  "Decimal_of_number x =
     (if x = 0 then 0
      else if x < 0 then - shortest_decimal 17 (- x) (decexp (- x))
      else shortest_decimal 17 x (decexp x))"

definition toNumber :: "real \<Rightarrow> number" where
  "toNumber d = fl d"

text \<open>
  A column \<^verbatim>\<open>DECIMAL(p, s)\<close> of PostgreSQL stores a value rounded to \<open>s\<close> decimal places,
  a half away from zero, and rejects a value whose rounding has more than \<open>p - s\<close> digits
  before the point. A column \<^verbatim>\<open>INTEGER\<close> holds 32 bits.
\<close>

definition numeric_round :: "nat \<Rightarrow> real \<Rightarrow> real" where
  "numeric_round sc x =
     (if 0 \<le> x then of_int \<lfloor>x * 10 ^ sc + 1 / 2\<rfloor> / 10 ^ sc
      else - (of_int \<lfloor>- x * 10 ^ sc + 1 / 2\<rfloor> / 10 ^ sc))"

definition numeric_fits :: "nat \<Rightarrow> nat \<Rightarrow> real \<Rightarrow> bool" where
  "numeric_fits p sc x \<longleftrightarrow> \<bar>numeric_round sc x\<bar> < 10 ^ (p - sc)"

definition int4 :: "int \<Rightarrow> bool" where
  "int4 i \<longleftrightarrow> - 2147483648 \<le> i \<and> i \<le> 2147483647"

section \<open>Game configuration (config/gameConfig.ts)\<close>

text \<open>
  \<^verbatim>\<open>GAME_CONFIG\<close> is read from the environment when the module is loaded, so the
  functions below take it as a parameter; \<open>GAME_CONFIG_default\<close> holds the values used
  when no variable is set. \<^verbatim>\<open>MIN_MULTIPLIER\<close> is the literal \<^verbatim>\<open>1.0\<close>.
\<close>

definition MIN_MULTIPLIER :: number where
  "MIN_MULTIPLIER = 1"

record game_config =
  MAX_MULTIPLIER :: number
  MIN_BET_TON :: number
  MAX_BET_TON :: number
  MIN_BET_STARS :: number
  MAX_BET_STARS :: number
  HOUSE_FEE :: number
  ENABLE_DYNAMIC_MAX :: bool
  DYNAMIC_MAX_CYCLE_DAYS :: nat
  DYNAMIC_MAX_MIN :: number
  DYNAMIC_MAX_MAX :: number

definition GAME_CONFIG_default :: game_config where
  "GAME_CONFIG_default =
     \<lparr>MAX_MULTIPLIER = 100, MIN_BET_TON = fl (1 / 10), MAX_BET_TON = 100,
      MIN_BET_STARS = 10, MAX_BET_STARS = 1000, HOUSE_FEE = fl (1 / 100),
      ENABLE_DYNAMIC_MAX = False, DYNAMIC_MAX_CYCLE_DAYS = 20,
      DYNAMIC_MAX_MIN = 50, DYNAMIC_MAX_MAX = 150\<rparr>"

text \<open>
  \<^verbatim>\<open>validateGameConfig\<close>, for the parameters of the record: whether it finds no error.
\<close>

definition validateGameConfig :: "game_config \<Rightarrow> bool" where
  "validateGameConfig cfg \<longleftrightarrow>
     \<not> MIN_MULTIPLIER < 1 \<and>
     \<not> MAX_MULTIPLIER cfg \<le> MIN_MULTIPLIER \<and>
     \<not> MIN_BET_TON cfg \<le> 0 \<and>
     \<not> MAX_BET_TON cfg \<le> MIN_BET_TON cfg \<and>
     \<not> MIN_BET_STARS cfg \<le> 0 \<and>
     \<not> MAX_BET_STARS cfg \<le> MIN_BET_STARS cfg \<and>
     \<not> (HOUSE_FEE cfg < 0 \<or> 1 < HOUSE_FEE cfg) \<and>
     (if ENABLE_DYNAMIC_MAX cfg
      then \<not> DYNAMIC_MAX_CYCLE_DAYS cfg \<le> 0 \<and> \<not> DYNAMIC_MAX_MIN cfg \<le> 0 \<and>
           \<not> DYNAMIC_MAX_MAX cfg \<le> DYNAMIC_MAX_MIN cfg
      else True)"

text \<open>\<open>now\<close> is \<^verbatim>\<open>Date.now()\<close>, in milliseconds.\<close>

definition getMaxMultiplier :: "game_config \<Rightarrow> nat \<Rightarrow> number" where
  "getMaxMultiplier cfg now =
     (if \<not> ENABLE_DYNAMIC_MAX cfg then MAX_MULTIPLIER cfg
      else fadd (DYNAMIC_MAX_MIN cfg)
             (fmul (fdiv (real (nat (Math_floor (fdiv (real now) 86400000)) mod DYNAMIC_MAX_CYCLE_DAYS cfg))
                         (real (DYNAMIC_MAX_CYCLE_DAYS cfg)))
                   (fsub (DYNAMIC_MAX_MAX cfg) (DYNAMIC_MAX_MIN cfg))))"

section \<open>SHA-256 (crypto.createHash('sha256'), FIPS 180-4)\<close>

text \<open>
  Words are integers in \<open>[0, 2 ^ 32)\<close>; addition wraps by \<open>mod 2 ^ 32\<close>, a rotation is
  written with \<open>div\<close> and \<open>mod\<close>, and the complement of a word \<open>x\<close> is \<open>2 ^ 32 - 1 - x\<close>.
\<close>

definition add32 :: "int \<Rightarrow> int \<Rightarrow> int" where
  "add32 x y = (x + y) mod 4294967296"

definition rotr :: "nat \<Rightarrow> int \<Rightarrow> int" where
  "rotr n x = x div 2 ^ n + (x mod 2 ^ n) * 2 ^ (32 - n)"

definition Ch :: "int \<Rightarrow> int \<Rightarrow> int \<Rightarrow> int" where
  "Ch x y z = (x AND y) XOR ((4294967295 - x) AND z)"

definition Maj :: "int \<Rightarrow> int \<Rightarrow> int \<Rightarrow> int" where
  "Maj x y z = (x AND y) XOR (x AND z) XOR (y AND z)"

definition bsig0 :: "int \<Rightarrow> int" where
  "bsig0 x = rotr 2 x XOR rotr 13 x XOR rotr 22 x"

definition bsig1 :: "int \<Rightarrow> int" where
  "bsig1 x = rotr 6 x XOR rotr 11 x XOR rotr 25 x"

definition ssig0 :: "int \<Rightarrow> int" where
  "ssig0 x = rotr 7 x XOR rotr 18 x XOR x div 2 ^ 3"

definition ssig1 :: "int \<Rightarrow> int" where
  "ssig1 x = rotr 17 x XOR rotr 19 x XOR x div 2 ^ 10"

definition K256 :: "int list" where
  "K256 =
    [1116352408, 1899447441, 3049323471, 3921009573, 961987163, 1508970993,
     2453635748, 2870763221, 3624381080, 310598401, 607225278, 1426881987,
     1925078388, 2162078206, 2614888103, 3248222580, 3835390401, 4022224774,
     264347078, 604807628, 770255983, 1249150122, 1555081692, 1996064986,
     2554220882, 2821834349, 2952996808, 3210313671, 3336571891, 3584528711,
     113926993, 338241895, 666307205, 773529912, 1294757372, 1396182291,
     1695183700, 1986661051, 2177026350, 2456956037, 2730485921, 2820302411,
     3259730800, 3345764771, 3516065817, 3600352804, 4094571909, 275423344,
     430227734, 506948616, 659060556, 883997877, 958139571, 1322822218,
     1537002063, 1747873779, 1955562222, 2024104815, 2227730452, 2361852424,
     2428436474, 2756734187, 3204031479, 3329325298]"

datatype sha_state = ShaState int int int int int int int int

definition H256 :: sha_state where
  "H256 = ShaState 1779033703 3144134277 1013904242 2773480762 1359893119 2600822924 528734635 1541459225"

text \<open>
  The message schedule, newest word first: from the 16 words of a block (reversed) to all
  64 words.
\<close>

fun schedule :: "nat \<Rightarrow> int list \<Rightarrow> int list" where
  "schedule n ws =
     (if n = 0 then ws
      else schedule (n - 1)
             (add32 (add32 (add32 (ssig1 (ws ! 1)) (ws ! 6)) (ssig0 (ws ! 14))) (ws ! 15) # ws))"

declare schedule.simps [simp del]

definition T1 :: "int \<Rightarrow> int \<Rightarrow> int \<Rightarrow> int \<Rightarrow> int \<Rightarrow> int \<Rightarrow> int" where
  "T1 e f g h k w = add32 (add32 (add32 (add32 h (bsig1 e)) (Ch e f g)) k) w"

definition T2 :: "int \<Rightarrow> int \<Rightarrow> int \<Rightarrow> int" where
  "T2 a b c = add32 (bsig0 a) (Maj a b c)"

fun sha_step :: "int \<Rightarrow> int \<Rightarrow> sha_state \<Rightarrow> sha_state" where
  "sha_step t1 t2 (ShaState a b c d e f g h) =
     ShaState (add32 t1 t2) a b c (add32 d t1) e f g"

fun sha_round :: "sha_state \<Rightarrow> int \<times> int \<Rightarrow> sha_state" where
  "sha_round (ShaState a b c d e f g h) (k, w) =
     sha_step (T1 e f g h k w) (T2 a b c) (ShaState a b c d e f g h)"

fun sha_add :: "sha_state \<Rightarrow> sha_state \<Rightarrow> sha_state" where
  "sha_add (ShaState a b c d e f g h) (ShaState a' b' c' d' e' f' g' h') =
     ShaState (add32 a a') (add32 b b') (add32 c c') (add32 d d')
              (add32 e e') (add32 f f') (add32 g g') (add32 h h')"

fun be32 :: "nat list \<Rightarrow> int list" where
  "be32 (a # b # c # d # r) = int (((a * 256 + b) * 256 + c) * 256 + d) # be32 r"
| "be32 _ = []"

definition compress :: "sha_state \<Rightarrow> nat list \<Rightarrow> sha_state" where
  "compress hs block =
     sha_add hs (foldl sha_round hs (zip K256 (rev (schedule 48 (rev (be32 block))))))"

fun sha_blocks :: "nat \<Rightarrow> sha_state \<Rightarrow> nat list \<Rightarrow> sha_state" where
  "sha_blocks n hs bs =
     (if n = 0 then hs else sha_blocks (n - 1) (compress hs (take 64 bs)) (drop 64 bs))"

declare sha_blocks.simps [simp del]

fun be_bytes :: "nat \<Rightarrow> nat \<Rightarrow> nat list" where
  "be_bytes n v = (if n = 0 then [] else be_bytes (n - 1) (v div 256) @ [v mod 256])"

declare be_bytes.simps [simp del]

fun zero_bytes :: "nat \<Rightarrow> nat list" where
  "zero_bytes n = (if n = 0 then [] else 0 # zero_bytes (n - 1))"

declare zero_bytes.simps [simp del]

definition sha_pad :: "nat list \<Rightarrow> nat list" where
  "sha_pad m = m @ [128] @ zero_bytes ((119 - length m mod 64) mod 64) @ be_bytes 8 (8 * length m)"

definition sha256 :: "nat list \<Rightarrow> sha_state" where
  "sha256 m = sha_blocks (length (sha_pad m) div 64) H256 (sha_pad m)"

definition hexdigit :: "nat \<Rightarrow> char" where
  "hexdigit n = ''0123456789abcdef'' ! n"

fun hex_of :: "nat \<Rightarrow> nat \<Rightarrow> string" where
  "hex_of n v = (if n = 0 then [] else hex_of (n - 1) (v div 16) @ [hexdigit (v mod 16)])"

declare hex_of.simps [simp del]

fun digest_hex :: "sha_state \<Rightarrow> string" where
  "digest_hex (ShaState a b c d e f g h) =
     concat (map (\<lambda>w. hex_of 8 (nat w)) [a, b, c, d, e, f, g, h])"

text \<open>
  \<^verbatim>\<open>crypto.createHash('sha256').update(s).digest('hex')\<close>: a string is hashed as its
  UTF-8 bytes, which are the characters of a \<open>string\<close>.
\<close>

definition sha256_hex :: "string \<Rightarrow> string" where
  "sha256_hex s = digest_hex (sha256 (map of_char s))"

section \<open>The provably fair system (utils/provablyFair.ts)\<close>

text \<open>
  \<^verbatim>\<open>crypto.randomBytes(32).toString('hex')\<close>: the 32 random bytes are an argument of
  the model.
\<close>

definition toHex :: "nat list \<Rightarrow> string" where
  "toHex bs = concat (map (\<lambda>b. [hexdigit (b div 16), hexdigit (b mod 16)]) bs)"

definition generateServerSeed :: "nat list \<Rightarrow> string" where
  "generateServerSeed randomBytes = toHex randomBytes"

definition generateClientSeed :: "nat list \<Rightarrow> string" where
  "generateClientSeed randomBytes = toHex randomBytes"

definition calculateHash :: "string \<Rightarrow> string \<Rightarrow> string" where
  "calculateHash serverSeed clientSeed = sha256_hex (serverSeed @ clientSeed)"

text \<open>
  \<^verbatim>\<open>parseInt(s, 16)\<close> on a string of hexadecimal digits: the longest prefix of digits is
  read, and the result is NaN (\<open>None\<close>) when the string does not start with one. Signs,
  blanks and a \<^verbatim>\<open>0x\<close> prefix do not occur in a digest and are not modelled.
\<close>

definition hexDigitValue :: "char \<Rightarrow> nat option" where
  "hexDigitValue c =
     (if 48 \<le> (of_char c :: nat) \<and> (of_char c :: nat) \<le> 57 then Some (of_char c - 48)
      else if 97 \<le> (of_char c :: nat) \<and> (of_char c :: nat) \<le> 102 then Some (of_char c - 87)
      else if 65 \<le> (of_char c :: nat) \<and> (of_char c :: nat) \<le> 70 then Some (of_char c - 55)
      else None)"

fun parseHexDigits :: "nat \<Rightarrow> string \<Rightarrow> nat" where
  "parseHexDigits acc [] = acc"
| "parseHexDigits acc (c # cs) =
     (case hexDigitValue c of None \<Rightarrow> acc | Some d \<Rightarrow> parseHexDigits (16 * acc + d) cs)"

definition parseInt16 :: "string \<Rightarrow> nat option" where
  "parseInt16 s =
     (case s of [] \<Rightarrow> None
      | c # cs \<Rightarrow> (case hexDigitValue c of None \<Rightarrow> None | Some d \<Rightarrow> Some (parseHexDigits 0 s)))"

definition hashToNormalized :: "string \<Rightarrow> number option" where
  "hashToNormalized hash =
     (case parseInt16 (take 8 hash) of
        None \<Rightarrow> None
      | Some hashInt \<Rightarrow> Some (fdiv (real (hashInt mod 10000)) 10000))"

definition normalizedToMultiplier :: "number \<Rightarrow> number" where
  "normalizedToMultiplier normalized =
     fdiv 1 (fsub 1 (max 0 (min (fl (9999 / 10000)) normalized)))"

definition seedsToMultiplier :: "string \<Rightarrow> string \<Rightarrow> number option" where
  "seedsToMultiplier serverSeed clientSeed =
     map_option normalizedToMultiplier (hashToNormalized (calculateHash serverSeed clientSeed))"

datatype verify_error = SeedsEmpty | MultiplierMismatch

record VerificationResult =
  verified :: bool
  verror :: "verify_error option"
  calculatedMultiplier :: "number option"
  expectedMultiplier :: "number option"
  hash :: "string option"

text \<open>An empty string is falsy; the tolerance is the literal \<^verbatim>\<open>0.01\<close>.\<close>

definition verifyRound :: "string \<Rightarrow> string \<Rightarrow> number \<Rightarrow> VerificationResult" where
  "verifyRound serverSeed clientSeed expected =
     (if serverSeed = [] \<or> clientSeed = []
      then \<lparr>verified = False, verror = Some SeedsEmpty, calculatedMultiplier = None,
            expectedMultiplier = None, hash = None\<rparr>
      else
        (case seedsToMultiplier serverSeed clientSeed of
           None \<Rightarrow>
             \<lparr>verified = False, verror = Some MultiplierMismatch, calculatedMultiplier = None,
              expectedMultiplier = Some expected, hash = Some (calculateHash serverSeed clientSeed)\<rparr>
         | Some calculated \<Rightarrow>
             \<lparr>verified = \<bar>fsub calculated expected\<bar> < fl (1 / 100),
              verror = (if \<bar>fsub calculated expected\<bar> < fl (1 / 100) then None
                        else Some MultiplierMismatch),
              calculatedMultiplier = Some calculated,
              expectedMultiplier = Some expected,
              hash = Some (calculateHash serverSeed clientSeed)\<rparr>))"

section \<open>The game algorithm (utils/gameAlgorithm.ts)\<close>

text \<open>\<^verbatim>\<open>clientSeed || ''\<close>: an absent client seed is the empty string.\<close>

definition generateCrashMultiplier ::
  "game_config \<Rightarrow> nat \<Rightarrow> string \<Rightarrow> string option \<Rightarrow> number option" where
  "generateCrashMultiplier cfg now serverSeed clientSeed =
     map_option
       (\<lambda>normalized. max (min (normalizedToMultiplier normalized) (getMaxMultiplier cfg now))
                          MIN_MULTIPLIER)
       (hashToNormalized
          (calculateHash serverSeed (case clientSeed of None \<Rightarrow> [] | Some c \<Rightarrow> c)))"

definition generateCrashMultiplierRounded ::
  "game_config \<Rightarrow> nat \<Rightarrow> string \<Rightarrow> string option \<Rightarrow> number option" where
  "generateCrashMultiplierRounded cfg now serverSeed clientSeed =
     map_option (\<lambda>multiplier. fdiv (of_int (Math_round (fmul multiplier 100))) 100)
       (generateCrashMultiplier cfg now serverSeed clientSeed)"

text \<open>
  \<^verbatim>\<open>isValidBetAmount\<close> takes the currency as one of the strings \<^verbatim>\<open>'TON'\<close> and
  \<^verbatim>\<open>'STARS'\<close>.
\<close>

definition isValidBetAmount :: "game_config \<Rightarrow> number \<Rightarrow> string \<Rightarrow> bool" where
  "isValidBetAmount cfg amount currency =
     (if currency = ''TON'' then MIN_BET_TON cfg \<le> amount \<and> amount \<le> MAX_BET_TON cfg
      else if currency = ''STARS''
        then MIN_BET_STARS cfg \<le> amount \<and> amount \<le> MAX_BET_STARS cfg
      else False)"

definition grossWinnings :: "number \<Rightarrow> number \<Rightarrow> number" where
  "grossWinnings betAmount multiplier = fmul betAmount multiplier"

definition houseFeeAmount :: "game_config \<Rightarrow> number \<Rightarrow> number \<Rightarrow> number" where
  "houseFeeAmount cfg betAmount multiplier = fmul (grossWinnings betAmount multiplier) (HOUSE_FEE cfg)"

definition netWinnings :: "game_config \<Rightarrow> number \<Rightarrow> number \<Rightarrow> number" where
  "netWinnings cfg betAmount multiplier =
     fsub (grossWinnings betAmount multiplier) (houseFeeAmount cfg betAmount multiplier)"

definition calculateWinnings :: "game_config \<Rightarrow> number \<Rightarrow> number \<Rightarrow> number" where
  "calculateWinnings cfg betAmount multiplier =
     (if multiplier < MIN_MULTIPLIER then - betAmount
      else fsub (netWinnings cfg betAmount multiplier) betAmount)"

section \<open>The database\<close>

text \<open>
  The tables \<^verbatim>\<open>game_rounds\<close>, \<^verbatim>\<open>bets\<close> and \<^verbatim>\<open>users\<close>. Identifiers generated by the
  database are modelled by the position of the new row; rows are never deleted by the
  code. Of the timestamps only those of a game round are kept (\<^verbatim>\<open>lastActivity\<close> of a user and
  \<^verbatim>\<open>createdAt\<close> of a bet play no part in any operation).

  \<^verbatim>\<open>CurrencyType\<close> is the enumeration of the Prisma schema; the documentation of the
  schema lists its members \<^verbatim>\<open>ton\<close>, \<^verbatim>\<open>stars\<close> and \<^verbatim>\<open>gift\<close>, and the code names
  \<^verbatim>\<open>CurrencyType.ton\<close> and \<^verbatim>\<open>CurrencyType.stars\<close>. The same documentation gives the types
  of the columns: \<^verbatim>\<open>ton_balance\<close>, \<^verbatim>\<open>amount\<close> and \<^verbatim>\<open>profit\<close> are \<^verbatim>\<open>DECIMAL(18,9)\<close>,
  \<^verbatim>\<open>crash_point\<close> and \<^verbatim>\<open>cashout_at\<close> are \<^verbatim>\<open>DECIMAL(8,2)\<close>, \<^verbatim>\<open>house_fee\<close> is
  \<^verbatim>\<open>DECIMAL(4,3)\<close>, \<^verbatim>\<open>stars_balance\<close> is \<^verbatim>\<open>INTEGER\<close>, and the two seeds of a round
  are \<^verbatim>\<open>VARCHAR(128)\<close>.
\<close>

datatype GameStatus = betting | flying | crashed

datatype CurrencyType = ton | stars | gift

record GameRound =
  rid :: nat
  crashPoint :: real
  serverSeed :: string
  hashedServerSeed :: string
  status :: GameStatus
  houseFee :: real
  startTime :: nat
  endTime :: "nat option"
  createdAt :: nat

record Bet =
  bid :: nat
  chatId :: string
  roundId :: nat
  amount :: real
  currency :: CurrencyType
  cashoutAt :: "real option"
  cashedOut :: bool
  profit :: "real option"

record User =
  tonBalance :: real
  starsBalance :: int

record database =
  users :: "string \<Rightarrow> User option"
  rounds :: "GameRound list"
  bets :: "Bet list"

text \<open>
  The constraints of the schema: the two \<^verbatim>\<open>CHECK\<close> constraints of
  \<^verbatim>\<open>add_balance_check_constraints.sql\<close> and the unique index on \<^verbatim>\<open>(chat_id, round_id)\<close>
  of \<^verbatim>\<open>bets\<close>.
\<close>

datatype db_constraint =
    check_ton_balance_non_negative
  | check_stars_balance_non_negative
  | unique_user_bet_per_round

datatype error =
    InvalidBetAmount
  | RoundNotFound
  | RoundNotBetting GameStatus
  | AlreadyBet
  | UserNotFound
  | InsufficientTon
  | InsufficientStars
  | BetNotFound
  | BetAlreadyCashedOut
  | RoundNotFlying GameStatus
  | ConstraintViolation db_constraint
  | RecordNotFound
  | NotANumber
  | ValidationError
  | NumericOverflow
  | IntegerOutOfRange
  | ValueTooLong

definition findRound :: "database \<Rightarrow> nat \<Rightarrow> GameRound option" where
  "findRound s r = find (\<lambda>x. rid x = r) (rounds s)"

definition findBet :: "database \<Rightarrow> nat \<Rightarrow> Bet option" where
  "findBet s b = find (\<lambda>x. bid x = b) (bets s)"

definition findFirstBet :: "database \<Rightarrow> string \<Rightarrow> nat \<Rightarrow> Bet option" where
  "findFirstBet s c r = find (\<lambda>x. chatId x = c \<and> roundId x = r) (bets s)"

text \<open>
  \<^verbatim>\<open>user.update\<close> with \<^verbatim>\<open>increment\<close> (\<^verbatim>\<open>decrement\<close> adds the negated amount): the row
  must exist, the new value must fit its column, and the new row must pass the two
  \<^verbatim>\<open>CHECK\<close> constraints. An increment of \<^verbatim>\<open>starsBalance\<close> is an \<^verbatim>\<open>Int\<close> of Prisma,
  which holds 32 bits.
\<close>

definition check_user :: "database \<Rightarrow> string \<Rightarrow> User \<Rightarrow> error + database" where
  "check_user s c u =
     (if tonBalance u < 0 then Inl (ConstraintViolation check_ton_balance_non_negative)
      else if starsBalance u < 0 then Inl (ConstraintViolation check_stars_balance_non_negative)
      else Inr (s\<lparr>users := (users s)(c \<mapsto> u)\<rparr>))"

definition increment_tonBalance :: "database \<Rightarrow> string \<Rightarrow> real \<Rightarrow> error + database" where
  "increment_tonBalance s c d =
     (case users s c of
        None \<Rightarrow> Inl RecordNotFound
      | Some u \<Rightarrow>
          if \<not> numeric_fits 18 9 (tonBalance u + d) then Inl NumericOverflow
          else check_user s c (u\<lparr>tonBalance := numeric_round 9 (tonBalance u + d)\<rparr>))"

definition increment_starsBalance :: "database \<Rightarrow> string \<Rightarrow> int \<Rightarrow> error + database" where
  "increment_starsBalance s c d =
     (if \<not> int4 d then Inl ValidationError
      else
        (case users s c of
           None \<Rightarrow> Inl RecordNotFound
         | Some u \<Rightarrow>
             if \<not> int4 (starsBalance u + d) then Inl IntegerOutOfRange
             else check_user s c (u\<lparr>starsBalance := starsBalance u + d\<rparr>)))"

definition decrement_tonBalance :: "database \<Rightarrow> string \<Rightarrow> real \<Rightarrow> error + database" where
  "decrement_tonBalance s c d =
     (case users s c of
        None \<Rightarrow> Inl RecordNotFound
      | Some u \<Rightarrow>
          if \<not> numeric_fits 18 9 (tonBalance u - d) then Inl NumericOverflow
          else check_user s c (u\<lparr>tonBalance := numeric_round 9 (tonBalance u - d)\<rparr>))"

definition decrement_starsBalance :: "database \<Rightarrow> string \<Rightarrow> int \<Rightarrow> error + database" where
  "decrement_starsBalance s c d =
     (if \<not> int4 d then Inl ValidationError
      else
        (case users s c of
           None \<Rightarrow> Inl RecordNotFound
         | Some u \<Rightarrow>
             if \<not> int4 (starsBalance u - d) then Inl IntegerOutOfRange
             else check_user s c (u\<lparr>starsBalance := starsBalance u - d\<rparr>)))"

text \<open>
  \<^verbatim>\<open>bet.create\<close>: Prisma accepts for \<^verbatim>\<open>currency\<close> the name of a member of
  \<^verbatim>\<open>CurrencyType\<close> and rejects every other string before anything is sent to the
  database. The defaults of the columns are \<^verbatim>\<open>cashed_out = false\<close> and null. The user and
  the round of the new row exist whenever \<^verbatim>\<open>createBet\<close> gets this far, so the foreign
  keys play no part.
\<close>

definition CurrencyType_member :: "string \<Rightarrow> CurrencyType option" where
  "CurrencyType_member name =
     (if name = ''ton'' then Some ton
      else if name = ''stars'' then Some stars
      else if name = ''gift'' then Some gift
      else None)"

definition bet_create ::
  "database \<Rightarrow> string \<Rightarrow> nat \<Rightarrow> real \<Rightarrow> string \<Rightarrow> error + database \<times> Bet" where
  "bet_create s c r a cur =
     (case CurrencyType_member cur of
        None \<Rightarrow> Inl ValidationError
      | Some member \<Rightarrow>
          if \<not> numeric_fits 18 9 a then Inl NumericOverflow
          else if \<exists>x \<in> set (bets s). chatId x = c \<and> roundId x = r
          then Inl (ConstraintViolation unique_user_bet_per_round)
          else Inr (s\<lparr>bets := bets s @
                        [\<lparr>bid = length (bets s), chatId = c, roundId = r,
                          amount = numeric_round 9 a, currency = member,
                          cashoutAt = None, cashedOut = False, profit = None\<rparr>]\<rparr>,
                    \<lparr>bid = length (bets s), chatId = c, roundId = r,
                     amount = numeric_round 9 a, currency = member,
                     cashoutAt = None, cashedOut = False, profit = None\<rparr>))"

text \<open>\<^verbatim>\<open>bet.update\<close> of a row that was read before.\<close>

definition bet_update :: "database \<Rightarrow> nat \<Rightarrow> (Bet \<Rightarrow> Bet) \<Rightarrow> database" where
  "bet_update s b f = s\<lparr>bets := map (\<lambda>x. if bid x = b then f x else x) (bets s)\<rparr>"

text \<open>
  \<^verbatim>\<open>prisma.$transaction\<close>: the body runs on the state; when it throws, its writes are
  rolled back and the error is passed on.
\<close>

definition transaction ::
  "database \<Rightarrow> (database \<Rightarrow> error + database \<times> 'a) \<Rightarrow> database \<times> (error + 'a)" where
  "transaction s body =
     (case body s of Inl e \<Rightarrow> (s, Inl e) | Inr (tx, r) \<Rightarrow> (tx, Inr r))"

section \<open>The game service (services/game.service.ts)\<close>

record CreateRoundData =
  data_crashPoint :: "number option"
  data_serverSeed :: "string option"

record RoundDataFull =
  full_id :: nat
  full_crashPoint :: number
  full_serverSeed :: string
  full_hashedServerSeed :: string
  full_status :: GameStatus
  full_houseFee :: number
  full_startTime :: nat
  full_endTime :: "nat option"
  full_createdAt :: nat

record RoundData =
  rd_id :: nat
  rd_crashPoint :: "number option"
  rd_serverSeed :: "string option"
  rd_hashedServerSeed :: string
  rd_status :: GameStatus
  rd_houseFee :: number
  rd_startTime :: nat
  rd_endTime :: "nat option"
  rd_createdAt :: nat
  rd_betsCount :: "nat option"
  rd_totalBetAmount :: "real option"

definition convertRoundData :: "GameRound \<Rightarrow> RoundData" where
  "convertRoundData rnd =
     \<lparr>rd_id = rid rnd,
      rd_crashPoint = (if status rnd = crashed then Some (toNumber (crashPoint rnd)) else None),
      rd_serverSeed = (if status rnd = crashed then Some (serverSeed rnd) else None),
      rd_hashedServerSeed = hashedServerSeed rnd,
      rd_status = status rnd,
      rd_houseFee = toNumber (houseFee rnd),
      rd_startTime = startTime rnd,
      rd_endTime = endTime rnd,
      rd_createdAt = createdAt rnd,
      rd_betsCount = None,
      rd_totalBetAmount = None\<rparr>"

definition convertRoundDataFull :: "GameRound \<Rightarrow> RoundDataFull" where
  "convertRoundDataFull rnd =
     \<lparr>full_id = rid rnd,
      full_crashPoint = toNumber (crashPoint rnd),
      full_serverSeed = serverSeed rnd,
      full_hashedServerSeed = hashedServerSeed rnd,
      full_status = status rnd,
      full_houseFee = toNumber (houseFee rnd),
      full_startTime = startTime rnd,
      full_endTime = endTime rnd,
      full_createdAt = createdAt rnd\<rparr>"

text \<open>
  \<open>serverBytes\<close> and \<open>clientBytes\<close> are what the two calls of
  \<^verbatim>\<open>crypto.randomBytes(32)\<close> return. The new row holds the crash point and the house fee at
  the scale of their columns; a crash point that is NaN, a value that does not fit its
  column and a seed longer than its column are refused by the database.
\<close>

definition chosenServerSeed :: "CreateRoundData \<Rightarrow> nat list \<Rightarrow> string" where
  "chosenServerSeed dat serverBytes =
     (case data_serverSeed dat of
        None \<Rightarrow> generateServerSeed serverBytes
      | Some sd \<Rightarrow> if sd = [] then generateServerSeed serverBytes else sd)"

definition chosenCrashPoint ::
  "game_config \<Rightarrow> nat \<Rightarrow> CreateRoundData \<Rightarrow> string \<Rightarrow> nat list \<Rightarrow> number option" where
  "chosenCrashPoint cfg now dat seed clientBytes =
     (case data_crashPoint dat of
        Some c \<Rightarrow> Some c
      | None \<Rightarrow> generateCrashMultiplierRounded cfg now seed (Some (generateClientSeed clientBytes)))"

definition newRound :: "game_config \<Rightarrow> nat \<Rightarrow> database \<Rightarrow> string \<Rightarrow> number \<Rightarrow> GameRound" where
  "newRound cfg now s seed cp =
     \<lparr>rid = length (rounds s),
      crashPoint = numeric_round 2 (Decimal_of_number cp),
      serverSeed = seed,
      hashedServerSeed = calculateHash seed [],
      status = betting,
      houseFee = numeric_round 3 (Decimal_of_number (HOUSE_FEE cfg)),
      startTime = now,
      endTime = None,
      createdAt = now\<rparr>"

definition createRound ::
  "game_config \<Rightarrow> nat \<Rightarrow> database \<Rightarrow> CreateRoundData \<Rightarrow> nat list \<Rightarrow> nat list
     \<Rightarrow> database \<times> (error + RoundDataFull)" where
  "createRound cfg now s dat serverBytes clientBytes =
     (case chosenCrashPoint cfg now dat (chosenServerSeed dat serverBytes) clientBytes of
        None \<Rightarrow> (s, Inl NotANumber)
      | Some cp \<Rightarrow>
          if \<not> numeric_fits 8 2 (Decimal_of_number cp) \<or>
             \<not> numeric_fits 4 3 (Decimal_of_number (HOUSE_FEE cfg))
          then (s, Inl NumericOverflow)
          else if 128 < length (chosenServerSeed dat serverBytes) \<or>
                  128 < length (calculateHash (chosenServerSeed dat serverBytes) [])
          then (s, Inl ValueTooLong)
          else
            (s\<lparr>rounds := rounds s @ [newRound cfg now s (chosenServerSeed dat serverBytes) cp]\<rparr>,
             Inr (convertRoundDataFull (newRound cfg now s (chosenServerSeed dat serverBytes) cp))))"

definition getRoundById :: "database \<Rightarrow> nat \<Rightarrow> RoundData option" where
  "getRoundById s r =
     (case findRound s r of
        None \<Rightarrow> None
      | Some rnd \<Rightarrow>
          Some ((convertRoundData rnd)
                  \<lparr>rd_betsCount := Some (length (filter (\<lambda>b. roundId b = r) (bets s))),
                   rd_totalBetAmount :=
                     Some (sum_list (map amount (filter (\<lambda>b. roundId b = r) (bets s))))\<rparr>))"

definition setStatus :: "nat \<Rightarrow> GameStatus \<Rightarrow> GameRound \<Rightarrow> GameRound" where
  "setStatus now st rnd =
     rnd\<lparr>status := st, endTime := (if st = crashed then Some now else endTime rnd)\<rparr>"

definition updateRoundStatus ::
  "nat \<Rightarrow> database \<Rightarrow> nat \<Rightarrow> GameStatus \<Rightarrow> database \<times> (error + RoundData)" where
  "updateRoundStatus now s r st =
     (case findRound s r of
        None \<Rightarrow> (s, Inl RecordNotFound)
      | Some rnd \<Rightarrow>
          (s\<lparr>rounds := map (\<lambda>x. if rid x = r then setStatus now st x else x) (rounds s)\<rparr>,
           Inr (convertRoundData (setStatus now st rnd))))"

section \<open>The handler getRound (api/controllers/game.controller.ts)\<close>

text \<open>
  The response is a status code and the fields of \<^verbatim>\<open>data\<close>, in the order the handler
  writes them. \<open>None\<close> is a request without \<^verbatim>\<open>roundId\<close>.
\<close>

datatype json = JNat nat | JNum real | JStatus GameStatus | JTime nat | JNull | JUndefined

datatype http_response = Response nat "(string \<times> json) list"

definition getRound :: "database \<Rightarrow> nat option \<Rightarrow> http_response" where
  "getRound s roundId' =
     (case roundId' of
        None \<Rightarrow> Response 400 []
      | Some r \<Rightarrow>
          (case getRoundById s r of
             None \<Rightarrow> Response 404 []
           | Some rnd \<Rightarrow>
               Response 200
                 ([(''roundId'', JNat (rd_id rnd)),
                   (''status'', JStatus (rd_status rnd)),
                   (''startTime'', JTime (rd_startTime rnd)),
                   (''endTime'', case rd_endTime rnd of None \<Rightarrow> JNull | Some t \<Rightarrow> JTime t),
                   (''betsCount'', JNat (case rd_betsCount rnd of None \<Rightarrow> 0 | Some n \<Rightarrow> n))]
                  @ (if rd_status rnd = crashed
                     then [(''crashPoint'',
                            case rd_crashPoint rnd of None \<Rightarrow> JUndefined | Some c \<Rightarrow> JNum c)]
                     else []))))"

definition response_fields :: "http_response \<Rightarrow> string list" where
  "response_fields resp = (case resp of Response code kvs \<Rightarrow> map fst kvs)"

section \<open>The bet service (services/bet.service.ts)\<close>

text \<open>
  \<open>d_amount\<close> is the amount after \<^verbatim>\<open>parseFloat\<close>; a NaN or an infinity fails
  \<^verbatim>\<open>isValidBetAmount\<close> like any amount out of range. \<open>d_currency\<close> is the currency of
  the request, which \<^verbatim>\<open>CreateBetData\<close> types as one of the strings \<^verbatim>\<open>'ton'\<close> and
  \<^verbatim>\<open>'stars'\<close>. \<open>toUpperCase\<close> is \<^verbatim>\<open>String.prototype.toUpperCase\<close> on the letters
  \<^verbatim>\<open>a\<close> to \<^verbatim>\<open>z\<close>.
\<close>

datatype BetCurrency = Ton | Stars

fun currencyName :: "BetCurrency \<Rightarrow> string" where
  "currencyName Ton = ''ton''"
| "currencyName Stars = ''stars''"

definition upper_char :: "char \<Rightarrow> char" where
  "upper_char c =
     (case map_of (zip ''abcdefghijklmnopqrstuvwxyz'' ''ABCDEFGHIJKLMNOPQRSTUVWXYZ'') c of
        None \<Rightarrow> c
      | Some u \<Rightarrow> u)"

definition toUpperCase :: "string \<Rightarrow> string" where
  "toUpperCase str = map upper_char str"

record CreateBetData =
  d_chatId :: string
  d_roundId :: nat
  d_amount :: number
  d_currency :: BetCurrency

text \<open>Steps 1 to 4 of the transaction of \<^verbatim>\<open>createBet\<close>: the reads and the checks.\<close>

definition createBet_checks :: "database \<Rightarrow> CreateBetData \<Rightarrow> error + User" where
  "createBet_checks tx dat =
     (case findRound tx (d_roundId dat) of
        None \<Rightarrow> Inl RoundNotFound
      | Some rnd \<Rightarrow>
          if status rnd \<noteq> betting then Inl (RoundNotBetting (status rnd))
          else
            (case findFirstBet tx (d_chatId dat) (d_roundId dat) of
               Some existingBet \<Rightarrow> Inl AlreadyBet
             | None \<Rightarrow>
                 (case users tx (d_chatId dat) of
                    None \<Rightarrow> Inl UserNotFound
                  | Some user \<Rightarrow>
                      (case d_currency dat of
                         Ton \<Rightarrow>
                           if tonBalance user < Decimal_of_number (d_amount dat)
                           then Inl InsufficientTon else Inr user
                       | Stars \<Rightarrow>
                           if of_int (starsBalance user) < d_amount dat
                           then Inl InsufficientStars else Inr user))))"

text \<open>
  Step 5, the debit, and step 6, the new row, whose currency is
  \<^verbatim>\<open>data.currency.toUpperCase()\<close>.
\<close>

definition debit :: "database \<Rightarrow> CreateBetData \<Rightarrow> error + database" where
  "debit tx dat =
     (case d_currency dat of
        Ton \<Rightarrow> decrement_tonBalance tx (d_chatId dat) (Decimal_of_number (d_amount dat))
      | Stars \<Rightarrow> decrement_starsBalance tx (d_chatId dat) (Math_floor (d_amount dat)))"

definition createBet_writes :: "database \<Rightarrow> CreateBetData \<Rightarrow> error + database \<times> Bet" where
  "createBet_writes tx dat =
     (case debit tx dat of
        Inl e \<Rightarrow> Inl e
      | Inr tx' \<Rightarrow>
          bet_create tx' (d_chatId dat) (d_roundId dat) (Decimal_of_number (d_amount dat))
            (toUpperCase (currencyName (d_currency dat))))"

definition createBet_tx :: "database \<Rightarrow> CreateBetData \<Rightarrow> error + database \<times> Bet" where
  "createBet_tx tx dat =
     (case createBet_checks tx dat of Inl e \<Rightarrow> Inl e | Inr user \<Rightarrow> createBet_writes tx dat)"

definition createBet ::
  "game_config \<Rightarrow> database \<Rightarrow> CreateBetData \<Rightarrow> database \<times> (error + Bet)" where
  "createBet cfg s dat =
     (if \<not> isValidBetAmount cfg (d_amount dat) (toUpperCase (currencyName (d_currency dat)))
      then (s, Inl InvalidBetAmount)
      else transaction s (\<lambda>tx. createBet_tx tx dat))"

text \<open>
  \<^verbatim>\<open>cashoutBet\<close>: the profit, the payout, the updated row as the columns
  \<^verbatim>\<open>cashout_at\<close> and \<^verbatim>\<open>profit\<close> store it, and the credit.
\<close>

definition cashoutProfit :: "game_config \<Rightarrow> Bet \<Rightarrow> number \<Rightarrow> number" where
  "cashoutProfit cfg bet serverMultiplier =
     calculateWinnings cfg (toNumber (amount bet)) serverMultiplier"

definition totalPayout :: "game_config \<Rightarrow> Bet \<Rightarrow> number \<Rightarrow> number" where
  "totalPayout cfg bet serverMultiplier =
     fadd (toNumber (amount bet)) (cashoutProfit cfg bet serverMultiplier)"

definition cashedOutBet :: "game_config \<Rightarrow> number \<Rightarrow> Bet \<Rightarrow> Bet" where
  "cashedOutBet cfg serverMultiplier bet =
     bet\<lparr>cashoutAt := Some (numeric_round 2 (Decimal_of_number serverMultiplier)),
         cashedOut := True,
         profit := Some (numeric_round 9
                           (Decimal_of_number (cashoutProfit cfg bet serverMultiplier)))\<rparr>"

definition credit :: "game_config \<Rightarrow> database \<Rightarrow> Bet \<Rightarrow> number \<Rightarrow> error + database" where
  "credit cfg tx bet serverMultiplier =
     (case currency bet of
        ton \<Rightarrow>
          increment_tonBalance tx (chatId bet)
            (Decimal_of_number (totalPayout cfg bet serverMultiplier))
      | stars \<Rightarrow>
          increment_starsBalance tx (chatId bet)
            (Math_floor (totalPayout cfg bet serverMultiplier))
      | gift \<Rightarrow> Inr tx)"

definition cashoutBet_tx ::
  "game_config \<Rightarrow> database \<Rightarrow> nat \<Rightarrow> number \<Rightarrow> error + database \<times> Bet" where
  "cashoutBet_tx cfg tx betId serverMultiplier =
     (case findBet tx betId of
        None \<Rightarrow> Inl BetNotFound
      | Some bet \<Rightarrow>
          if cashedOut bet then Inl BetAlreadyCashedOut
          else
            (case findRound tx (roundId bet) of
               None \<Rightarrow> Inl RoundNotFound
             | Some rnd \<Rightarrow>
                 if status rnd \<noteq> flying then Inl (RoundNotFlying (status rnd))
                 else if \<not> numeric_fits 8 2 (Decimal_of_number serverMultiplier) \<or>
                         \<not> numeric_fits 18 9
                             (Decimal_of_number (cashoutProfit cfg bet serverMultiplier))
                 then Inl NumericOverflow
                 else
                   (case credit cfg (bet_update tx betId (cashedOutBet cfg serverMultiplier))
                           bet serverMultiplier of
                      Inl e \<Rightarrow> Inl e
                    | Inr tx' \<Rightarrow> Inr (tx', cashedOutBet cfg serverMultiplier bet))))"

definition cashoutBet ::
  "game_config \<Rightarrow> database \<Rightarrow> nat \<Rightarrow> number \<Rightarrow> database \<times> (error + Bet)" where
  "cashoutBet cfg s betId serverMultiplier =
     transaction s (\<lambda>tx. cashoutBet_tx cfg tx betId serverMultiplier)"

text \<open>\<^verbatim>\<open>finalizeBet\<close> (deprecated) and the batch \<^verbatim>\<open>finalizeBetsInRound\<close>.\<close>

definition lostBet :: "Bet \<Rightarrow> Bet" where
  "lostBet bet = bet\<lparr>profit := Some (- amount bet)\<rparr>"

definition finalizeBet :: "database \<Rightarrow> nat \<Rightarrow> number \<Rightarrow> database \<times> (error + Bet)" where
  "finalizeBet s betId crashMultiplier =
     (case findBet s betId of
        None \<Rightarrow> (s, Inl BetNotFound)
      | Some bet \<Rightarrow>
          if cashedOut bet then (s, Inr bet)
          else (bet_update s betId lostBet, Inr (lostBet bet)))"

definition finalizeBetsInRound :: "database \<Rightarrow> nat \<Rightarrow> number \<Rightarrow> database \<times> nat" where
  "finalizeBetsInRound s r crashMultiplier =
     (s\<lparr>bets := map (\<lambda>b. if roundId b = r \<and> \<not> cashedOut b then lostBet b else b) (bets s)\<rparr>,
      length (filter (\<lambda>b. roundId b = r \<and> \<not> cashedOut b) (bets s)))"

section \<open>Sequences of operations\<close>

datatype ledger_op =
    CreateRound nat CreateRoundData "nat list" "nat list"
  | UpdateRoundStatus nat nat GameStatus
  | CreateBet CreateBetData
  | CashoutBet nat number
  | FinalizeBet nat number
  | FinalizeBetsInRound nat number

fun apply_op :: "game_config \<Rightarrow> database \<Rightarrow> ledger_op \<Rightarrow> database" where
  "apply_op cfg s (CreateRound now dat sb cb) = fst (createRound cfg now s dat sb cb)"
| "apply_op cfg s (UpdateRoundStatus now r st) = fst (updateRoundStatus now s r st)"
| "apply_op cfg s (CreateBet dat) = fst (createBet cfg s dat)"
| "apply_op cfg s (CashoutBet b m) = fst (cashoutBet cfg s b m)"
| "apply_op cfg s (FinalizeBet b m) = fst (finalizeBet s b m)"
| "apply_op cfg s (FinalizeBetsInRound r m) = fst (finalizeBetsInRound s r m)"

definition run_ops :: "game_config \<Rightarrow> database \<Rightarrow> ledger_op list \<Rightarrow> database" where
  "run_ops cfg s ops = foldl (apply_op cfg) s ops"

definition unique_bets :: "database \<Rightarrow> bool" where
  "unique_bets s = distinct (map (\<lambda>b. (chatId b, roundId b)) (bets s))"

section \<open>Notions used in the statements\<close>

text \<open>
  A row of \<^verbatim>\<open>users\<close> as the database can hold it: the balances pass the \<^verbatim>\<open>CHECK\<close>
  constraints and fit their columns. Whether a user can pay a stake, as \<^verbatim>\<open>createBet\<close>
  tests it; the user after the debit of step 5 and after the credit of a cash-out; whether
  a user has a bet in a round; and whether a bet is settled: it was cashed out, or it
  carries its loss.
\<close>

definition valid_user :: "User \<Rightarrow> bool" where
  "valid_user u \<longleftrightarrow>
     0 \<le> tonBalance u \<and> tonBalance u \<le> 999999999999999999 / 10 ^ 9 \<and>
     numeric_round 9 (tonBalance u) = tonBalance u \<and>
     0 \<le> starsBalance u \<and> starsBalance u \<le> 2147483647"

definition valid_users :: "database \<Rightarrow> bool" where
  "valid_users s = (\<forall>c u. users s c = Some u \<longrightarrow> valid_user u)"

definition sufficient_balance :: "User \<Rightarrow> CreateBetData \<Rightarrow> bool" where
  "sufficient_balance u dat =
     (case d_currency dat of
        Ton \<Rightarrow> Decimal_of_number (d_amount dat) \<le> tonBalance u
      | Stars \<Rightarrow> d_amount dat \<le> of_int (starsBalance u))"

definition debited :: "User \<Rightarrow> CreateBetData \<Rightarrow> User" where
  "debited u dat =
     (case d_currency dat of
        Ton \<Rightarrow>
          u\<lparr>tonBalance := numeric_round 9 (tonBalance u - Decimal_of_number (d_amount dat))\<rparr>
      | Stars \<Rightarrow> u\<lparr>starsBalance := starsBalance u - \<lfloor>d_amount dat\<rfloor>\<rparr>)"

definition credited :: "game_config \<Rightarrow> Bet \<Rightarrow> number \<Rightarrow> User \<Rightarrow> User" where
  "credited cfg bet m u =
     (case currency bet of
        ton \<Rightarrow>
          u\<lparr>tonBalance :=
              numeric_round 9 (tonBalance u + Decimal_of_number (totalPayout cfg bet m))\<rparr>
      | stars \<Rightarrow> u\<lparr>starsBalance := starsBalance u + \<lfloor>totalPayout cfg bet m\<rfloor>\<rparr>
      | gift \<Rightarrow> u)"

definition has_bet :: "database \<Rightarrow> string \<Rightarrow> nat \<Rightarrow> bool" where
  "has_bet s c r = (\<exists>x \<in> set (bets s). chatId x = c \<and> roundId x = r)"


section \<open>Example states\<close>

text \<open>
  A settled round with three bets: an unresolved one, one that was cashed out at 1.5, and
  a bet of another round.
\<close>

definition db_settled :: database where
  "db_settled =
     \<lparr>users = [''7'' \<mapsto> \<lparr>tonBalance = 5, starsBalance = 40\<rparr>],
      rounds = [\<lparr>rid = 0, crashPoint = 2, serverSeed = ''s'', hashedServerSeed = ''h'',
                 status = crashed, houseFee = 1 / 100, startTime = 0, endTime = Some 30000,
                 createdAt = 0\<rparr>],
      bets = [\<lparr>bid = 0, chatId = ''7'', roundId = 0, amount = 10, currency = ton,
               cashoutAt = None, cashedOut = False, profit = None\<rparr>,
              \<lparr>bid = 1, chatId = ''8'', roundId = 0, amount = 3, currency = ton,
               cashoutAt = Some (3 / 2), cashedOut = True, profit = Some (291 / 200)\<rparr>,
              \<lparr>bid = 2, chatId = ''7'', roundId = 1, amount = 20, currency = stars,
               cashoutAt = None, cashedOut = False, profit = None\<rparr>]\<rparr>"

text \<open>
  Round 0 accepts bets and nobody has bet yet; the user \<open>''7''\<close> holds 50 TON and
  40 Stars.
\<close>

definition db_betting :: database where
  "db_betting =
     \<lparr>users = [''7'' \<mapsto> \<lparr>tonBalance = 50, starsBalance = 40\<rparr>],
      rounds = [\<lparr>rid = 0, crashPoint = 3, serverSeed = ''s'', hashedServerSeed = ''h'',
                 status = betting, houseFee = 1 / 100, startTime = 0, endTime = None,
                 createdAt = 0\<rparr>],
      bets = []\<rparr>"

definition bet_ton_10 :: CreateBetData where
  "bet_ton_10 = \<lparr>d_chatId = ''7'', d_roundId = 0, d_amount = 10, d_currency = Ton\<rparr>"

definition bet_stars_10_5 :: CreateBetData where
  "bet_stars_10_5 = \<lparr>d_chatId = ''7'', d_roundId = 0, d_amount = 21 / 2, d_currency = Stars\<rparr>"

text \<open>
  Round 0 is flying. The user \<open>''7''\<close> has staked 10 TON (bet 0) and holds 40 TON after
  the debit; the user \<open>''8''\<close> has staked 10.5 Stars (bet 1) and holds 90 Stars; the
  user \<open>''9''\<close> has staked 0.1 TON (bet 2).
\<close>

definition db_flying :: database where
  "db_flying =
     \<lparr>users = [''7'' \<mapsto> \<lparr>tonBalance = 40, starsBalance = 40\<rparr>,
               ''8'' \<mapsto> \<lparr>tonBalance = 0, starsBalance = 90\<rparr>,
               ''9'' \<mapsto> \<lparr>tonBalance = 1, starsBalance = 0\<rparr>],
      rounds = [\<lparr>rid = 0, crashPoint = 3, serverSeed = ''s'', hashedServerSeed = ''h'',
                 status = flying, houseFee = 1 / 100, startTime = 0, endTime = None,
                 createdAt = 0\<rparr>],
      bets = [\<lparr>bid = 0, chatId = ''7'', roundId = 0, amount = 10, currency = ton,
               cashoutAt = None, cashedOut = False, profit = None\<rparr>,
              \<lparr>bid = 1, chatId = ''8'', roundId = 0, amount = 21 / 2, currency = stars,
               cashoutAt = None, cashedOut = False, profit = None\<rparr>,
              \<lparr>bid = 2, chatId = ''9'', roundId = 0, amount = 1 / 10, currency = ton,
               cashoutAt = None, cashedOut = False, profit = None\<rparr>]\<rparr>"

text \<open>
  Round 0 is flying; the user \<open>''8''\<close> has staked 10 Stars (bet 0) and holds 90 Stars
  after the debit.
\<close>

definition db_stars :: database where
  "db_stars =
     \<lparr>users = [''8'' \<mapsto> \<lparr>tonBalance = 0, starsBalance = 90\<rparr>],
      rounds = [\<lparr>rid = 0, crashPoint = 3, serverSeed = ''s'', hashedServerSeed = ''h'',
                 status = flying, houseFee = 1 / 100, startTime = 0, endTime = None,
                 createdAt = 0\<rparr>],
      bets = [\<lparr>bid = 0, chatId = ''8'', roundId = 0, amount = 10, currency = stars,
               cashoutAt = None, cashedOut = False, profit = None\<rparr>]\<rparr>"

text \<open>
  A database without rounds, and the creation of a round from a given seed \<open>''s''\<close> and a
  given crash point 1.58.
\<close>

definition db_fresh :: database where
  "db_fresh = \<lparr>users = Map.empty, rounds = [], bets = []\<rparr>"

definition seeded_round :: CreateRoundData where
  "seeded_round = \<lparr>data_crashPoint = Some (fl (79 / 50)), data_serverSeed = Some ''s''\<rparr>"

text \<open>
  A call \<^verbatim>\<open>createRound()\<close> without data, and what \<^verbatim>\<open>crypto.randomBytes(32)\<close> may
  return: 32 zero bytes for the server seed, and two values for the client seed.
\<close>

definition no_data :: CreateRoundData where
  "no_data = \<lparr>data_crashPoint = None, data_serverSeed = None\<rparr>"

definition server_bytes :: "nat list" where
  "server_bytes = zero_bytes 32"

definition client_bytes_a :: "nat list" where
  "client_bytes_a = zero_bytes 32"

definition client_bytes_b :: "nat list" where
  "client_bytes_b = 1 # zero_bytes 31"


section \<open>Evaluation\<close>

lemmas number_eval =
  fl_def round_at_def roundTiesToEven_def ties_even_def binexp_def pow2_def bitlen_nat.simps
  fadd_def fsub_def fmul_def fdiv_def Math_floor_def Math_round_def
  digits10.simps pow10_def decexp_def nearest_multiple_def other_multiple_def
  shortest_decimal.simps Decimal_of_number_def toNumber_def

lemmas column_eval = numeric_round_def numeric_fits_def int4_def

lemmas config_eval =
  GAME_CONFIG_default_def MIN_MULTIPLIER_def isValidBetAmount_def
  toUpperCase_def upper_char_def CurrencyType_member_def

lemmas winnings_eval =
  calculateWinnings_def netWinnings_def houseFeeAmount_def grossWinnings_def
  cashoutProfit_def totalPayout_def

lemmas ledger_eval =
  createBet_def createBet_tx_def createBet_checks_def createBet_writes_def debit_def
  cashoutBet_def cashoutBet_tx_def credit_def cashedOutBet_def
  transaction_def check_user_def increment_tonBalance_def increment_starsBalance_def
  decrement_tonBalance_def decrement_starsBalance_def bet_create_def bet_update_def
  findRound_def findBet_def findFirstBet_def

lemmas sha_eval =
  sha256_hex_def sha256_def sha_pad_def zero_bytes.simps be_bytes.simps sha_blocks.simps
  compress_def K256_def H256_def schedule.simps T1_def T2_def add32_def
  bsig0_def bsig1_def ssig0_def ssig1_def Ch_def Maj_def rotr_def hex_of.simps hexdigit_def

lemmas fair_eval =
  calculateHash_def hashToNormalized_def parseInt16_def hexDigitValue_def
  seedsToMultiplier_def normalizedToMultiplier_def

section \<open>Properties of the rounding\<close>

lemma bitlen_nat_bounds:
  "0 < n \<Longrightarrow> 2 ^ (bitlen_nat n - 1) \<le> n \<and> n < 2 ^ bitlen_nat n"
proof (induction n rule: bitlen_nat.induct)
  case (1 n)
  show ?case
  proof (cases "n div 2 = 0")
    case True
    with 1 have "n = 1" by (simp add: div_eq_0_iff) 
    then show ?thesis by (simp add: bitlen_nat.simps)
  next
    case False
    with 1 have ih: "2 ^ (bitlen_nat (n div 2) - 1) \<le> n div 2" "n div 2 < 2 ^ bitlen_nat (n div 2)"
      by simp_all
    have b: "bitlen_nat n = Suc (bitlen_nat (n div 2))"
      using 1 by (simp add: bitlen_nat.simps [of n])
    have pos: "0 < bitlen_nat (n div 2)"
      using False by (simp add: bitlen_nat.simps [of "n div 2"])
    then obtain k where k: "bitlen_nat (n div 2) = Suc k" by (cases "bitlen_nat (n div 2)") simp_all
    from ih k have "2 ^ k \<le> n div 2" "n div 2 < 2 ^ Suc k" by simp_all
    then have "2 * 2 ^ k \<le> n" "n < 2 * 2 ^ Suc k" by linarith+
    then show ?thesis by (simp add: b k)
  qed
qed

lemma pow2_powr: "pow2 e = 2 powr (real_of_int e)"
proof (cases "0 \<le> e")
  case True
  then have "real_of_int e = real (nat e)" by simp
  then have "2 powr (real_of_int e) = 2 powr real (nat e)" by (rule arg_cong)
  also have "\<dots> = 2 ^ nat e" by (rule powr_realpow) simp
  finally show ?thesis using True by (simp only: pow2_def if_True)
next
  case False
  then have "real_of_int e = - real (nat (- e))" by simp
  then have "2 powr (real_of_int e) = 2 powr (- real (nat (- e)))" by (rule arg_cong)
  also have "\<dots> = 1 / 2 powr real (nat (- e))" by (rule powr_minus_divide)
  also have "2 powr real (nat (- e)) = (2::real) ^ nat (- e)" by (rule powr_realpow) simp
  finally show ?thesis using False by (simp only: pow2_def if_False)
qed

lemma pow2_pos: "0 < pow2 e"
  by (simp add: pow2_powr)

lemma pow2_diff: "pow2 (e - 52) = pow2 e / 2 ^ 52"
proof -
  have "pow2 (e - 52) = 2 powr (real_of_int e - 52)" by (simp add: pow2_powr)
  also have "\<dots> = 2 powr real_of_int e / 2 powr 52" by (rule powr_diff)
  also have "(2::real) powr 52 = 2 ^ 52" by simp
  finally show ?thesis by (simp add: pow2_powr)
qed

lemma binexp_le:
  assumes "0 < a"
  shows "pow2 (binexp a) \<le> a"
proof (cases "1 \<le> a")
  case True
  then have n: "0 < nat \<lfloor>a\<rfloor>" by simp
  from bitlen_nat_bounds [OF n] have le: "2 ^ (bitlen_nat (nat \<lfloor>a\<rfloor>) - 1) \<le> nat \<lfloor>a\<rfloor>" by simp
  have pos: "0 < bitlen_nat (nat \<lfloor>a\<rfloor>)"
    using n by (simp add: bitlen_nat.simps [of "nat \<lfloor>a\<rfloor>"])
  then have e: "binexp a = int (bitlen_nat (nat \<lfloor>a\<rfloor>) - 1)"
    using True by (simp add: binexp_def)
  have "pow2 (binexp a) = 2 ^ (bitlen_nat (nat \<lfloor>a\<rfloor>) - 1)"
    unfolding e by (simp add: pow2_def)
  also have "\<dots> \<le> real (nat \<lfloor>a\<rfloor>)"
    using le by (metis of_nat_le_iff of_nat_numeral of_nat_power)
  also have "\<dots> \<le> a" using True by simp
  finally show ?thesis .
next
  case False
  define k where "k = nat (\<lceil>1 / a\<rceil> - 1)"
  define b where "b = bitlen_nat k"
  from False assms have "1 < 1 / a" by simp
  then have "2 \<le> \<lceil>1 / a\<rceil>" by linarith
  then have kpos: "0 < k" by (simp add: k_def)
  have "1 / a \<le> real_of_int \<lceil>1 / a\<rceil>" by linarith
  also have "\<dots> = real k + 1"
  proof -
    have "int k = \<lceil>1 / a\<rceil> - 1" unfolding k_def using \<open>2 \<le> \<lceil>1 / a\<rceil>\<close> by linarith
    then have "real_of_int (int k) = real_of_int (\<lceil>1 / a\<rceil> - 1)" by (rule arg_cong)
    then show ?thesis by simp
  qed
  finally have up: "1 / a \<le> real k + 1" .
  from bitlen_nat_bounds [OF kpos] have "k < 2 ^ b" by (simp add: b_def)
  then have "k + 1 \<le> 2 ^ b" by simp
  then have "real (k + 1) \<le> real (2 ^ b)" by (rule of_nat_mono)
  then have "real k + 1 \<le> 2 ^ b" by simp
  with up have "1 / a \<le> 2 ^ b" by linarith
  then have "1 \<le> 2 ^ b * a" using assms by (simp add: field_simps)
  then have le: "1 / 2 ^ b \<le> a" by (simp add: field_simps)
  have e: "binexp a = - int b"
    using False by (simp add: binexp_def k_def b_def)
  have "pow2 (binexp a) = 1 / 2 ^ b"
    unfolding e by (cases "b = 0") (simp_all add: pow2_def)
  with le show ?thesis by simp
qed

lemma roundTiesToEven_err: "\<bar>real_of_int (roundTiesToEven y) - y\<bar> \<le> 1 / 2"
  unfolding roundTiesToEven_def ties_even_def by (simp; linarith)

lemma fl_err: "\<bar>fl x - x\<bar> \<le> \<bar>x\<bar> / 2 ^ 53"
proof (cases "x = 0")
  case True
  then show ?thesis by (simp add: fl_def)
next
  case False
  define u where "u = pow2 (binexp \<bar>x\<bar> - 52)"
  have upos: "0 < u" by (simp add: u_def pow2_pos)
  have "fl x - x = (real_of_int (roundTiesToEven (x / u)) - x / u) * u"
    using False upos by (simp add: fl_def round_at_def u_def [symmetric] field_simps)
  then have "\<bar>fl x - x\<bar> = \<bar>real_of_int (roundTiesToEven (x / u)) - x / u\<bar> * u"
    using upos by (simp add: abs_mult)
  also have "\<dots> \<le> (1 / 2) * u"
    using roundTiesToEven_err [of "x / u"] upos by (intro mult_right_mono) simp_all
  also have "\<dots> = pow2 (binexp \<bar>x\<bar>) / 2 ^ 53"
    by (simp add: u_def pow2_diff)
  also have "\<dots> \<le> \<bar>x\<bar> / 2 ^ 53"
    using binexp_le [of "\<bar>x\<bar>"] False by (simp add: divide_right_mono)
  finally show ?thesis .
qed

lemma fl_pos:
  assumes "0 < x"
  shows "x / 2 \<le> fl x"
proof -
  have "x / 2 ^ 53 \<le> x / 2" using assms by simp
  moreover have "\<bar>fl x - x\<bar> \<le> x / 2 ^ 53" using fl_err [of x] assms by simp
  ultimately show ?thesis by linarith
qed

lemma roundTiesToEven_nonpos: "z \<le> 0 \<Longrightarrow> roundTiesToEven z \<le> 0"
  unfolding roundTiesToEven_def ties_even_def by (simp; linarith)

lemma fl_nonpos:
  assumes "y \<le> 0"
  shows "fl y \<le> 0"
proof (cases "y = 0")
  case True
  then show ?thesis by (simp add: fl_def)
next
  case False
  define u where "u = pow2 (binexp \<bar>y\<bar> - 52)"
  have upos: "0 < u" by (simp add: u_def pow2_pos)
  with assms have "y / u \<le> 0" by (simp add: divide_nonpos_pos)
  then have "roundTiesToEven (y / u) \<le> 0" by (rule roundTiesToEven_nonpos)
  then have "real_of_int (roundTiesToEven (y / u)) \<le> 0" by simp
  with upos have "real_of_int (roundTiesToEven (y / u)) * u \<le> 0"
    by (simp add: mult_nonpos_nonneg)
  with False show ?thesis by (simp add: fl_def round_at_def u_def)
qed

lemma shortest_decimal_pos: "0 < x \<Longrightarrow> 0 < shortest_decimal j x n"
proof (induction j x n rule: shortest_decimal.induct)
  case (1 j x n)
  let ?u = "pow10 (n + int j - 18)"
  show ?case
  proof (cases "j = 0")
    case True
    with 1 show ?thesis unfolding shortest_decimal.simps [of j x n] by simp
  next
    case j: False
    show ?thesis
    proof (cases "fl (nearest_multiple ?u x) = x")
      case True
      have "0 < nearest_multiple ?u x"
      proof (rule ccontr)
        assume "\<not> 0 < nearest_multiple ?u x"
        then have "fl (nearest_multiple ?u x) \<le> 0" by (simp add: fl_nonpos)
        with True 1 show False by simp
      qed
      with j True show ?thesis unfolding shortest_decimal.simps [of j x n] by simp
    next
      case nm: False
      show ?thesis
      proof (cases "fl (other_multiple ?u x) = x")
        case True
        have "0 < other_multiple ?u x"
        proof (rule ccontr)
          assume "\<not> 0 < other_multiple ?u x"
          then have "fl (other_multiple ?u x) \<le> 0" by (simp add: fl_nonpos)
          with True 1 show False by simp
        qed
        with j nm True show ?thesis unfolding shortest_decimal.simps [of j x n] by simp
      next
        case False
        with j nm 1 show ?thesis unfolding shortest_decimal.simps [of j x n] by simp
      qed
    qed
  qed
qed

lemma Decimal_of_number_pos: "0 < x \<Longrightarrow> 0 < Decimal_of_number x"
  by (simp add: Decimal_of_number_def shortest_decimal_pos)

lemma numeric_round_nonneg: "0 \<le> x \<Longrightarrow> 0 \<le> numeric_round sc x"
  by (simp add: numeric_round_def)

lemma numeric_round_mono:
  assumes "0 \<le> x" and "x \<le> y"
  shows "numeric_round sc x \<le> numeric_round sc y"
proof -
  have "x * 10 ^ sc + 1 / 2 \<le> y * 10 ^ sc + 1 / 2" using assms by simp
  then have "\<lfloor>x * 10 ^ sc + 1 / 2\<rfloor> \<le> \<lfloor>y * 10 ^ sc + 1 / 2\<rfloor>" by (rule floor_mono)
  then have "real_of_int \<lfloor>x * 10 ^ sc + 1 / 2\<rfloor> \<le> real_of_int \<lfloor>y * 10 ^ sc + 1 / 2\<rfloor>" by simp
  then have "real_of_int \<lfloor>x * 10 ^ sc + 1 / 2\<rfloor> / 10 ^ sc \<le> real_of_int \<lfloor>y * 10 ^ sc + 1 / 2\<rfloor> / 10 ^ sc"
    by (rule divide_right_mono) simp
  with assms show ?thesis by (simp add: numeric_round_def)
qed

lemma numeric_round_grid:
  assumes "0 \<le> x" and "numeric_round sc x = x"
  shows "x * 10 ^ sc = real_of_int \<lfloor>x * 10 ^ sc + 1 / 2\<rfloor>"
proof -
  from assms have "real_of_int \<lfloor>x * 10 ^ sc + 1 / 2\<rfloor> / 10 ^ sc = x"
    by (simp add: numeric_round_def)
  then show ?thesis by (simp add: field_simps)
qed

lemma numeric_round_add:
  assumes "0 \<le> x" "numeric_round sc x = x" "0 \<le> d" "numeric_round sc d = d"
  shows "numeric_round sc (x + d) = x + d"
proof -
  define a where "a = \<lfloor>x * 10 ^ sc + 1 / 2\<rfloor>"
  define b where "b = \<lfloor>d * 10 ^ sc + 1 / 2\<rfloor>"
  have xa: "x * 10 ^ sc = real_of_int a"
    unfolding a_def by (rule numeric_round_grid [OF assms(1,2)])
  have db: "d * 10 ^ sc = real_of_int b"
    unfolding b_def by (rule numeric_round_grid [OF assms(3,4)])
  have "(x + d) * 10 ^ sc = real_of_int (a + b)" using xa db by (simp add: algebra_simps)
  then have e: "(x + d) * 10 ^ sc + 1 / 2 = real_of_int (a + b) + 1 / 2" by simp
  have "\<lfloor>real_of_int (a + b) + 1 / 2\<rfloor> = a + b" by linarith
  with e have f: "\<lfloor>(x + d) * 10 ^ sc + 1 / 2\<rfloor> = a + b" by simp
  have "real_of_int (a + b) / 10 ^ sc = x + d"
    using \<open>(x + d) * 10 ^ sc = real_of_int (a + b)\<close> by (simp add: field_simps)
  with f assms(1,3) show ?thesis by (simp add: numeric_round_def)
qed


section \<open>Placing a bet\<close>

lemma findFirstBet_None: "findFirstBet s c r = None \<longleftrightarrow> \<not> has_bet s c r"
  by (auto simp add: findFirstBet_def has_bet_def find_None_iff)

lemma findFirstBet_Some: "findFirstBet s c r = Some x \<Longrightarrow> has_bet s c r"
  by (auto simp add: findFirstBet_def has_bet_def find_Some_iff)

lemma checks_ok:
  "createBet_checks s dat = Inr u \<longleftrightarrow>
     (\<exists>rnd. findRound s (d_roundId dat) = Some rnd \<and> status rnd = betting) \<and>
     \<not> has_bet s (d_chatId dat) (d_roundId dat) \<and>
     users s (d_chatId dat) = Some u \<and> sufficient_balance u dat"
  by (auto simp add: createBet_checks_def sufficient_balance_def findFirstBet_None [symmetric]
      split: option.splits BetCurrency.splits)

lemma checks_error:
  "createBet_checks s dat = Inl e \<Longrightarrow>
     (case e of
        RoundNotFound \<Rightarrow> findRound s (d_roundId dat) = None
      | RoundNotBetting st \<Rightarrow>
          st \<noteq> betting \<and> (\<exists>rnd. findRound s (d_roundId dat) = Some rnd \<and> status rnd = st)
      | AlreadyBet \<Rightarrow> has_bet s (d_chatId dat) (d_roundId dat)
      | UserNotFound \<Rightarrow> users s (d_chatId dat) = None
      | InsufficientTon \<Rightarrow>
          d_currency dat = Ton \<and>
          (\<exists>u. users s (d_chatId dat) = Some u \<and> tonBalance u < Decimal_of_number (d_amount dat))
      | InsufficientStars \<Rightarrow>
          d_currency dat = Stars \<and>
          (\<exists>u. users s (d_chatId dat) = Some u \<and> of_int (starsBalance u) < d_amount dat)
      | _ \<Rightarrow> False)"
  by (auto simp add: createBet_checks_def dest: findFirstBet_Some
      split: option.splits BetCurrency.splits if_splits)

text \<open>The upper-cased name of a currency is no member of \<^verbatim>\<open>CurrencyType\<close>.\<close>

lemma upper_case_names:
  "toUpperCase ''ton'' = ''TON''" "toUpperCase ''stars'' = ''STARS''"
  by (simp_all add: toUpperCase_def upper_char_def)

lemma upper_case_no_member: "CurrencyType_member (toUpperCase (currencyName c)) = None"
  by (cases c) (simp_all add: upper_case_names CurrencyType_member_def)

lemma bet_create_rejected:
  "bet_create tx c r a (toUpperCase (currencyName cur)) = Inl ValidationError"
  by (simp add: bet_create_def upper_case_no_member)

lemma createBet_writes_error:
  "createBet_writes tx dat =
     (case debit tx dat of Inl e \<Rightarrow> Inl e | Inr tx' \<Rightarrow> Inl ValidationError)"
  by (simp add: createBet_writes_def bet_create_rejected split: sum.splits)

lemma createBet_tx_error:
  "createBet_tx tx dat =
     (case createBet_checks tx dat of
        Inl e \<Rightarrow> Inl e
      | Inr u \<Rightarrow> (case debit tx dat of Inl e \<Rightarrow> Inl e | Inr tx' \<Rightarrow> Inl ValidationError))"
  by (simp add: createBet_tx_def createBet_writes_error split: sum.splits)

lemma createBet_tx_fails: "\<exists>e. createBet_tx tx dat = Inl e"
  by (simp add: createBet_tx_error split: sum.splits)

lemma createBet_fails: "\<exists>e. createBet cfg s dat = (s, Inl e)"
proof (cases "isValidBetAmount cfg (d_amount dat) (toUpperCase (currencyName (d_currency dat)))")
  case False
  then show ?thesis by (simp add: createBet_def)
next
  case True
  from createBet_tx_fails [of s dat] obtain e where "createBet_tx s dat = Inl e" ..
  with True show ?thesis by (simp add: createBet_def transaction_def)
qed

lemma createBet_state: "fst (createBet cfg s dat) = s"
  using createBet_fails [of cfg s dat] by auto

text \<open>The debit of a stake that passed the checks succeeds.\<close>

lemma valid_amount_pos:
  assumes "validateGameConfig cfg"
    and "isValidBetAmount cfg a (toUpperCase (currencyName c))"
  shows "0 < a"
  using assms
  by (cases c) (auto simp add: validateGameConfig_def isValidBetAmount_def upper_case_names)

lemma numeric_round_max:
  "numeric_round 9 (999999999999999999 / 10 ^ 9) = 999999999999999999 / 10 ^ 9"
  by (simp add: numeric_round_def)

lemma debit_ok:
  assumes v: "valid_user u" and u: "users s (d_chatId dat) = Some u"
    and sb: "sufficient_balance u dat" and pos: "0 < d_amount dat"
  shows "debit s dat = Inr (s\<lparr>users := (users s)(d_chatId dat \<mapsto> debited u dat)\<rparr>)"
proof (cases "d_currency dat")
  case Ton
  define d where "d = Decimal_of_number (d_amount dat)"
  from pos have dpos: "0 < d" by (simp add: d_def Decimal_of_number_pos)
  from sb Ton have le: "d \<le> tonBalance u" by (simp add: sufficient_balance_def d_def)
  then have nn: "0 \<le> tonBalance u - d" by simp
  from v dpos have up: "tonBalance u - d \<le> 999999999999999999 / 10 ^ 9"
    by (simp add: valid_user_def)
  have r0: "0 \<le> numeric_round 9 (tonBalance u - d)" by (rule numeric_round_nonneg [OF nn])
  have "numeric_round 9 (tonBalance u - d) \<le> numeric_round 9 (999999999999999999 / 10 ^ 9)"
    by (rule numeric_round_mono [OF nn up])
  then have r1: "numeric_round 9 (tonBalance u - d) \<le> 999999999999999999 / 10 ^ 9"
    by (simp only: numeric_round_max)
  have "\<bar>numeric_round 9 (tonBalance u - d)\<bar> = numeric_round 9 (tonBalance u - d)"
    using r0 by simp
  also have "\<dots> < 10 ^ 9" using r1 by simp
  finally have fits: "numeric_fits 18 9 (tonBalance u - d)" by (simp add: numeric_fits_def)
  from v have st: "0 \<le> starsBalance u" by (simp add: valid_user_def)
  from Ton u fits r0 st show ?thesis
    by (simp add: debit_def decrement_tonBalance_def check_user_def debited_def d_def)
next
  case Stars
  from sb Stars have le: "d_amount dat \<le> of_int (starsBalance u)"
    by (simp add: sufficient_balance_def)
  then have f1: "\<lfloor>d_amount dat\<rfloor> \<le> starsBalance u" by (simp add: floor_le_iff)
  from pos have f0: "0 \<le> \<lfloor>d_amount dat\<rfloor>" by simp
  from v have b: "0 \<le> tonBalance u" "starsBalance u \<le> 2147483647"
    by (simp_all add: valid_user_def)
  define k where "k = \<lfloor>d_amount dat\<rfloor>"
  from f0 f1 b have "- 2147483648 \<le> k \<and> k \<le> 2147483647"
    and "- 2147483648 \<le> starsBalance u - k \<and> starsBalance u - k \<le> 2147483647"
    unfolding k_def by linarith+
  then have i1: "int4 \<lfloor>d_amount dat\<rfloor>" and i2: "int4 (starsBalance u - \<lfloor>d_amount dat\<rfloor>)"
    unfolding k_def int4_def by blast+
  from Stars u i1 i2 f1 b show ?thesis
    by (simp add: debit_def decrement_starsBalance_def check_user_def debited_def Math_floor_def)
qed

lemma createBet_tx_checked:
  assumes cfg: "validateGameConfig cfg" and vs: "valid_users s"
    and va: "isValidBetAmount cfg (d_amount dat) (toUpperCase (currencyName (d_currency dat)))"
    and ck: "createBet_checks s dat = Inr u"
  shows "createBet_tx s dat = Inl ValidationError"
proof -
  from ck have u: "users s (d_chatId dat) = Some u" and sb: "sufficient_balance u dat"
    by (simp_all add: checks_ok)
  from vs u have v: "valid_user u" by (simp add: valid_users_def)
  from valid_amount_pos [OF cfg va] have pos: "0 < d_amount dat" .
  from debit_ok [OF v u sb pos] ck show ?thesis
    by (simp add: createBet_tx_error)
qed

text \<open>
  Claim C4. The failure paths of \<^verbatim>\<open>createBet\<close> are as the claim has them: an invalid
  amount, a round that is missing or not in the \<open>betting\<close> phase, an existing bet of the
  user in the round, a missing user and a balance below the stake are refused, each with
  its own error, and the database is as before. The success path does not exist: step 6
  hands \<^verbatim>\<open>bet.create\<close> the upper-cased currency, which is no member of
  \<^verbatim>\<open>CurrencyType\<close>, so a request that meets every precondition is refused with the
  validation error, and the debit of step 5 is rolled back with the transaction. For
  every database and every request \<^verbatim>\<open>createBet\<close> fails and leaves the database as it
  was. The classification of the errors is for a configuration that
  \<^verbatim>\<open>validateGameConfig\<close> accepts and for balances the database can hold.
\<close>

theorem placeBet_contract:
  "(\<exists>e. createBet cfg s dat = (s, Inl e)) \<and>
   (validateGameConfig cfg \<and> valid_users s \<longrightarrow>
      (case snd (createBet cfg s dat) of
         Inr b \<Rightarrow> False
       | Inl e \<Rightarrow>
          (case e of
             InvalidBetAmount \<Rightarrow>
               \<not> isValidBetAmount cfg (d_amount dat) (toUpperCase (currencyName (d_currency dat)))
           | RoundNotFound \<Rightarrow> findRound s (d_roundId dat) = None
           | RoundNotBetting st \<Rightarrow>
               st \<noteq> betting \<and> (\<exists>rnd. findRound s (d_roundId dat) = Some rnd \<and> status rnd = st)
           | AlreadyBet \<Rightarrow> has_bet s (d_chatId dat) (d_roundId dat)
           | UserNotFound \<Rightarrow> users s (d_chatId dat) = None
           | InsufficientTon \<Rightarrow>
               d_currency dat = Ton \<and>
               (\<exists>u. users s (d_chatId dat) = Some u \<and> tonBalance u < Decimal_of_number (d_amount dat))
           | InsufficientStars \<Rightarrow>
               d_currency dat = Stars \<and>
               (\<exists>u. users s (d_chatId dat) = Some u \<and> of_int (starsBalance u) < d_amount dat)
           | ValidationError \<Rightarrow>
               isValidBetAmount cfg (d_amount dat) (toUpperCase (currencyName (d_currency dat))) \<and>
               (\<exists>rnd. findRound s (d_roundId dat) = Some rnd \<and> status rnd = betting) \<and>
               \<not> has_bet s (d_chatId dat) (d_roundId dat) \<and>
               (\<exists>u. users s (d_chatId dat) = Some u \<and> sufficient_balance u dat)
           | _ \<Rightarrow> False))) \<and>
   (validateGameConfig cfg \<and> valid_users s \<and>
    isValidBetAmount cfg (d_amount dat) (toUpperCase (currencyName (d_currency dat))) \<and>
    (\<exists>rnd. findRound s (d_roundId dat) = Some rnd \<and> status rnd = betting) \<and>
    \<not> has_bet s (d_chatId dat) (d_roundId dat) \<and>
    (\<exists>u. users s (d_chatId dat) = Some u \<and> sufficient_balance u dat)
    \<longrightarrow> createBet cfg s dat = (s, Inl ValidationError))"
proof (intro conjI impI)
  show "\<exists>e. createBet cfg s dat = (s, Inl e)" by (rule createBet_fails)
next
  assume a: "validateGameConfig cfg \<and> valid_users s"
  show "case snd (createBet cfg s dat) of
         Inr b \<Rightarrow> False
       | Inl e \<Rightarrow>
          (case e of
             InvalidBetAmount \<Rightarrow>
               \<not> isValidBetAmount cfg (d_amount dat) (toUpperCase (currencyName (d_currency dat)))
           | RoundNotFound \<Rightarrow> findRound s (d_roundId dat) = None
           | RoundNotBetting st \<Rightarrow>
               st \<noteq> betting \<and> (\<exists>rnd. findRound s (d_roundId dat) = Some rnd \<and> status rnd = st)
           | AlreadyBet \<Rightarrow> has_bet s (d_chatId dat) (d_roundId dat)
           | UserNotFound \<Rightarrow> users s (d_chatId dat) = None
           | InsufficientTon \<Rightarrow>
               d_currency dat = Ton \<and>
               (\<exists>u. users s (d_chatId dat) = Some u \<and> tonBalance u < Decimal_of_number (d_amount dat))
           | InsufficientStars \<Rightarrow>
               d_currency dat = Stars \<and>
               (\<exists>u. users s (d_chatId dat) = Some u \<and> of_int (starsBalance u) < d_amount dat)
           | ValidationError \<Rightarrow>
               isValidBetAmount cfg (d_amount dat) (toUpperCase (currencyName (d_currency dat))) \<and>
               (\<exists>rnd. findRound s (d_roundId dat) = Some rnd \<and> status rnd = betting) \<and>
               \<not> has_bet s (d_chatId dat) (d_roundId dat) \<and>
               (\<exists>u. users s (d_chatId dat) = Some u \<and> sufficient_balance u dat)
           | _ \<Rightarrow> False)"
  proof (cases "isValidBetAmount cfg (d_amount dat) (toUpperCase (currencyName (d_currency dat)))")
    case False
    then show ?thesis by (simp add: createBet_def)
  next
    case True
    show ?thesis
    proof (cases "createBet_checks s dat")
      case (Inl e)
      with True checks_error [OF Inl] show ?thesis
        by (simp add: createBet_def transaction_def createBet_tx_error split: error.splits)
    next
      case (Inr u)
      from a True Inr have "createBet_tx s dat = Inl ValidationError"
        by (intro createBet_tx_checked [of cfg s dat u]) simp_all
      with True Inr checks_ok [of s dat u] show ?thesis
        by (simp add: createBet_def transaction_def)
    qed
  qed
next
  assume a: "validateGameConfig cfg \<and> valid_users s \<and>
    isValidBetAmount cfg (d_amount dat) (toUpperCase (currencyName (d_currency dat))) \<and>
    (\<exists>rnd. findRound s (d_roundId dat) = Some rnd \<and> status rnd = betting) \<and>
    \<not> has_bet s (d_chatId dat) (d_roundId dat) \<and>
    (\<exists>u. users s (d_chatId dat) = Some u \<and> sufficient_balance u dat)"
  then obtain u where "createBet_checks s dat = Inr u"
    using checks_ok [of s dat] by blast
  with a have "createBet_tx s dat = Inl ValidationError"
    by (intro createBet_tx_checked [of cfg s dat u]) simp_all
  with a show "createBet cfg s dat = (s, Inl ValidationError)"
    by (simp add: createBet_def transaction_def)
qed

lemma valid_config_default: "validateGameConfig GAME_CONFIG_default"
  by (simp add: validateGameConfig_def GAME_CONFIG_default_def MIN_MULTIPLIER_def number_eval)

lemma valid_users_db_betting: "valid_users db_betting"
  by (simp add: valid_users_def db_betting_def valid_user_def numeric_round_def)

theorem placeBet_contract_witness:
  "createBet GAME_CONFIG_default db_betting bet_ton_10 = (db_betting, Inl ValidationError) \<and>
   createBet GAME_CONFIG_default db_betting bet_stars_10_5 = (db_betting, Inl ValidationError) \<and>
   users db_betting ''7'' = Some \<lparr>tonBalance = 50, starsBalance = 40\<rparr> \<and>
   bets db_betting = []"
proof -
  have r: "findRound db_betting 0 = Some (hd (rounds db_betting))"
    "status (hd (rounds db_betting)) = betting"
    by (simp_all add: findRound_def db_betting_def)
  have h: "\<not> has_bet db_betting ''7'' 0" by (simp add: has_bet_def db_betting_def)
  have u: "users db_betting ''7'' = Some \<lparr>tonBalance = 50, starsBalance = 40\<rparr>"
    by (simp add: db_betting_def)
  have v1: "isValidBetAmount GAME_CONFIG_default 10 (toUpperCase ''ton'')"
    by (simp add: upper_case_names isValidBetAmount_def GAME_CONFIG_default_def number_eval)
  have v2: "isValidBetAmount GAME_CONFIG_default (21 / 2) (toUpperCase ''stars'')"
    by (simp add: upper_case_names isValidBetAmount_def GAME_CONFIG_default_def)
  have d: "Decimal_of_number 10 = 10" by (simp add: number_eval)
  from placeBet_contract [of GAME_CONFIG_default db_betting bet_ton_10]
    valid_config_default valid_users_db_betting r h u v1 d
  have a: "createBet GAME_CONFIG_default db_betting bet_ton_10 = (db_betting, Inl ValidationError)"
    by (simp add: bet_ton_10_def sufficient_balance_def)
  from placeBet_contract [of GAME_CONFIG_default db_betting bet_stars_10_5]
    valid_config_default valid_users_db_betting r h u v2
  have b: "createBet GAME_CONFIG_default db_betting bet_stars_10_5 = (db_betting, Inl ValidationError)"
    by (simp add: bet_stars_10_5_def sufficient_balance_def)
  from a b u show ?thesis by (simp add: db_betting_def)
qed


section \<open>Settling the losses of a round\<close>

lemma finalize_users: "users (fst (finalizeBetsInRound s r m)) = users s"
  by (simp add: finalizeBetsInRound_def)

lemma finalize_rounds: "rounds (fst (finalizeBetsInRound s r m)) = rounds s"
  by (simp add: finalizeBetsInRound_def)

lemma finalize_bets:
  "bets (fst (finalizeBetsInRound s r m)) =
     map (\<lambda>b. if roundId b = r \<and> \<not> cashedOut b then lostBet b else b) (bets s)"
  by (simp add: finalizeBetsInRound_def)

lemma finalize_idem:
  "fst (finalizeBetsInRound (fst (finalizeBetsInRound s r m)) r m') =
   fst (finalizeBetsInRound s r m)"
  by (auto simp add: finalizeBetsInRound_def lostBet_def)

text \<open>
  Claim C8. \<^verbatim>\<open>finalizeBetsInRound\<close> gives every bet of the round that is not cashed out
  the profit \<open>- amount\<close> (a loss, nothing is paid) and touches nothing else: the balances
  and the rounds are as before, a bet that was cashed out, or that already carries its
  loss, is the same row afterwards, and a second call on the result changes nothing, so
  calling it again after a failure is harmless. The count it returns is the number of bets
  of the round that are not cashed out.
\<close>

theorem settleRoundLosses_idempotent:
  "users (fst (finalizeBetsInRound s r m)) = users s \<and>
   rounds (fst (finalizeBetsInRound s r m)) = rounds s \<and>
   length (bets (fst (finalizeBetsInRound s r m))) = length (bets s) \<and>
   (\<forall>i < length (bets s).
      bets (fst (finalizeBetsInRound s r m)) ! i =
        (if roundId (bets s ! i) = r \<and> \<not> cashedOut (bets s ! i)
         then (bets s ! i)\<lparr>profit := Some (- amount (bets s ! i))\<rparr>
         else bets s ! i)) \<and>
   (\<forall>i < length (bets s).
      cashedOut (bets s ! i) \<or> profit (bets s ! i) = Some (- amount (bets s ! i))
      \<longrightarrow> bets (fst (finalizeBetsInRound s r m)) ! i = bets s ! i) \<and>
   snd (finalizeBetsInRound s r m) =
     length (filter (\<lambda>b. roundId b = r \<and> \<not> cashedOut b) (bets s)) \<and>
   fst (finalizeBetsInRound (fst (finalizeBetsInRound s r m)) r m') =
     fst (finalizeBetsInRound s r m)"
proof -
  have "\<forall>i < length (bets s).
      cashedOut (bets s ! i) \<or> profit (bets s ! i) = Some (- amount (bets s ! i))
      \<longrightarrow> bets (fst (finalizeBetsInRound s r m)) ! i = bets s ! i"
    by (auto simp add: finalize_bets lostBet_def)
  moreover have "\<forall>i < length (bets s).
      bets (fst (finalizeBetsInRound s r m)) ! i =
        (if roundId (bets s ! i) = r \<and> \<not> cashedOut (bets s ! i)
         then (bets s ! i)\<lparr>profit := Some (- amount (bets s ! i))\<rparr>
         else bets s ! i)"
    by (simp add: finalize_bets lostBet_def)
  moreover have "snd (finalizeBetsInRound s r m) =
      length (filter (\<lambda>b. roundId b = r \<and> \<not> cashedOut b) (bets s))"
    by (simp add: finalizeBetsInRound_def)
  ultimately show ?thesis
    using finalize_idem [of s r m m']
    by (simp add: finalize_users finalize_rounds finalize_bets)
qed

theorem settleRoundLosses_idempotent_witness:
  "users (fst (finalizeBetsInRound db_settled 0 2)) = users db_settled \<and>
   map profit (bets (fst (finalizeBetsInRound db_settled 0 2))) =
     [Some (- 10), Some (291 / 200), None] \<and>
   map cashedOut (bets (fst (finalizeBetsInRound db_settled 0 2))) = [False, True, False] \<and>
   snd (finalizeBetsInRound db_settled 0 2) = 1 \<and>
   fst (finalizeBetsInRound (fst (finalizeBetsInRound db_settled 0 2)) 0 2) =
     fst (finalizeBetsInRound db_settled 0 2)"
  using settleRoundLosses_idempotent [of db_settled 0 2 2]
  by (simp add: db_settled_def finalizeBetsInRound_def lostBet_def)


section \<open>Cashing out\<close>

lemma find_map_bid:
  assumes "\<And>x. bid (f x) = bid x"
  shows "find (\<lambda>x. bid x = b) (map f xs) = map_option f (find (\<lambda>x. bid x = b) xs)"
  using assms by (induction xs) auto

lemma find_map_rid:
  assumes "\<And>x. rid (f x) = rid x"
  shows "find (\<lambda>x. rid x = r) (map f xs) = map_option f (find (\<lambda>x. rid x = r) xs)"
  using assms by (induction xs) auto

lemma findBet_bid: "findBet s b = Some x \<Longrightarrow> bid x = b"
  by (auto simp add: findBet_def find_Some_iff)


lemma check_user_Inr:
  "check_user s c u = Inr s' \<Longrightarrow> s' = s\<lparr>users := (users s)(c \<mapsto> u)\<rparr>"
  by (auto simp add: check_user_def split: if_splits)

lemma increment_tonBalance_Inr:
  assumes "increment_tonBalance s c d = Inr s'"
  shows "\<exists>u. users s c = Some u \<and>
           s' = s\<lparr>users := (users s)(c \<mapsto> u\<lparr>tonBalance := numeric_round 9 (tonBalance u + d)\<rparr>)\<rparr>"
  using assms
  by (auto simp add: increment_tonBalance_def dest: check_user_Inr split: option.splits if_splits)

lemma increment_starsBalance_Inr:
  assumes "increment_starsBalance s c d = Inr s'"
  shows "\<exists>u. users s c = Some u \<and>
           s' = s\<lparr>users := (users s)(c \<mapsto> u\<lparr>starsBalance := starsBalance u + d\<rparr>)\<rparr>"
  using assms
  by (auto simp add: increment_starsBalance_def dest: check_user_Inr
      split: option.splits if_splits)

lemma credit_Inr:
  assumes "credit cfg tx bet m = Inr s'"
  shows "bets s' = bets tx \<and> rounds s' = rounds tx \<and>
         (if currency bet = gift then users s' = users tx
          else \<exists>u. users tx (chatId bet) = Some u \<and>
                 users s' = (users tx)(chatId bet \<mapsto> credited cfg bet m u))"
proof (cases "currency bet")
  case ton
  with assms increment_tonBalance_Inr
    [of tx "chatId bet" "Decimal_of_number (totalPayout cfg bet m)" s']
  show ?thesis by (auto simp add: credit_def credited_def)
next
  case stars
  with assms increment_starsBalance_Inr
    [of tx "chatId bet" "Math_floor (totalPayout cfg bet m)" s']
  show ?thesis by (auto simp add: credit_def credited_def Math_floor_def)
next
  case gift
  with assms show ?thesis by (simp add: credit_def)
qed


lemma credit_same:
  "credit cfg tx bet m = Inr s' \<Longrightarrow> bets s' = bets tx \<and> rounds s' = rounds tx"
  using credit_Inr [of cfg tx bet m s'] by simp

lemma cashoutBet_tx_Inr:
  assumes "cashoutBet_tx cfg s betId m = Inr (s', b')"
  shows "\<exists>bet rnd. findBet s betId = Some bet \<and> \<not> cashedOut bet \<and>
           findRound s (roundId bet) = Some rnd \<and> status rnd = flying \<and>
           b' = cashedOutBet cfg m bet \<and>
           credit cfg (bet_update s betId (cashedOutBet cfg m)) bet m = Inr s'"
  using assms
  by (auto simp add: cashoutBet_tx_def split: option.splits if_splits sum.splits)




lemma cashoutBet_Inr:
  assumes "cashoutBet cfg s betId m = (s', Inr b')"
  shows "\<exists>bet rnd. findBet s betId = Some bet \<and> \<not> cashedOut bet \<and>
           findRound s (roundId bet) = Some rnd \<and> status rnd = flying \<and>
           b' = cashedOutBet cfg m bet \<and> findBet s' betId = Some b' \<and>
           bets s' = map (\<lambda>x. if bid x = betId then cashedOutBet cfg m x else x) (bets s) \<and>
           rounds s' = rounds s \<and>
           (if currency bet = gift then users s' = users s
            else \<exists>u. users s (chatId bet) = Some u \<and>
                   users s' = (users s)(chatId bet \<mapsto> credited cfg bet m u))"
proof -
  from assms have tx: "cashoutBet_tx cfg s betId m = Inr (s', b')"
    by (auto simp add: cashoutBet_def transaction_def split: sum.splits)
  from cashoutBet_tx_Inr [OF tx] obtain bet rnd where
    f: "findBet s betId = Some bet" and nc: "\<not> cashedOut bet" and
    r: "findRound s (roundId bet) = Some rnd" and st: "status rnd = flying" and
    b': "b' = cashedOutBet cfg m bet" and
    cr: "credit cfg (bet_update s betId (cashedOutBet cfg m)) bet m = Inr s'"
    by blast
  let ?tx = "bet_update s betId (cashedOutBet cfg m)"
  from credit_Inr [OF cr] have
    bs: "bets s' = bets ?tx" and rs: "rounds s' = rounds ?tx" and
    us: "if currency bet = gift then users s' = users ?tx
         else \<exists>u. users ?tx (chatId bet) = Some u \<and>
                users s' = (users ?tx)(chatId bet \<mapsto> credited cfg bet m u)"
    by simp_all
  have "find (\<lambda>x. bid x = betId) (map (\<lambda>x. if bid x = betId then cashedOutBet cfg m x else x) (bets s)) =
        map_option (\<lambda>x. if bid x = betId then cashedOutBet cfg m x else x)
          (find (\<lambda>x. bid x = betId) (bets s))"
    by (rule find_map_bid) (simp add: cashedOutBet_def)
  with f findBet_bid [OF f] bs have f': "findBet s' betId = Some (cashedOutBet cfg m bet)"
    by (simp add: findBet_def bet_update_def)
  have uu: "users ?tx = users s" by (simp add: bet_update_def)
  from f nc r st b' f' bs rs us show ?thesis
    unfolding uu by (simp add: bet_update_def)
qed

lemma cashoutBet_Inl: "cashoutBet cfg s betId m = (s', Inl e) \<Longrightarrow> s' = s"
  by (auto simp add: cashoutBet_def transaction_def split: sum.splits)





text \<open>When the cash-out succeeds.\<close>

lemma cashoutBet_ok:
  assumes "findBet s betId = Some bet" and "\<not> cashedOut bet"
    and "findRound s (roundId bet) = Some rnd" and "status rnd = flying"
    and "numeric_fits 8 2 (Decimal_of_number m)"
    and "numeric_fits 18 9 (Decimal_of_number (cashoutProfit cfg bet m))"
    and "credit cfg (bet_update s betId (cashedOutBet cfg m)) bet m = Inr s'"
  shows "cashoutBet cfg s betId m = (s', Inr (cashedOutBet cfg m bet))"
  using assms by (simp add: cashoutBet_def transaction_def cashoutBet_tx_def)

lemma credit_ton_ok:
  assumes c: "currency bet = ton" and u: "users tx (chatId bet) = Some u" and v: "valid_user u"
    and d0: "0 \<le> Decimal_of_number (totalPayout cfg bet m)"
    and d1: "tonBalance u + Decimal_of_number (totalPayout cfg bet m)
               \<le> 999999999999999999 / 10 ^ 9"
  shows "credit cfg tx bet m = Inr (tx\<lparr>users := (users tx)(chatId bet \<mapsto> credited cfg bet m u)\<rparr>)"
proof -
  define d where "d = Decimal_of_number (totalPayout cfg bet m)"
  from v d0 have nn: "0 \<le> tonBalance u + d" by (simp add: valid_user_def d_def)
  have r0: "0 \<le> numeric_round 9 (tonBalance u + d)" by (rule numeric_round_nonneg [OF nn])
  have "numeric_round 9 (tonBalance u + d) \<le> numeric_round 9 (999999999999999999 / 10 ^ 9)"
    using d1 by (intro numeric_round_mono [OF nn]) (simp add: d_def)
  then have r1: "numeric_round 9 (tonBalance u + d) \<le> 999999999999999999 / 10 ^ 9"
    by (simp only: numeric_round_max)
  have "\<bar>numeric_round 9 (tonBalance u + d)\<bar> = numeric_round 9 (tonBalance u + d)"
    using r0 by simp
  also have "\<dots> < 10 ^ 9" using r1 by simp
  finally have fits: "numeric_fits 18 9 (tonBalance u + d)" by (simp add: numeric_fits_def)
  from v have st: "0 \<le> starsBalance u" by (simp add: valid_user_def)
  from c u fits r0 st show ?thesis
    by (simp add: credit_def increment_tonBalance_def check_user_def credited_def d_def)
qed

lemma credit_stars_ok:
  assumes c: "currency bet = stars" and u: "users tx (chatId bet) = Some u" and v: "valid_user u"
    and d0: "0 \<le> \<lfloor>totalPayout cfg bet m\<rfloor>"
    and d1: "starsBalance u + \<lfloor>totalPayout cfg bet m\<rfloor> \<le> 2147483647"
  shows "credit cfg tx bet m = Inr (tx\<lparr>users := (users tx)(chatId bet \<mapsto> credited cfg bet m u)\<rparr>)"
proof -
  define k where "k = \<lfloor>totalPayout cfg bet m\<rfloor>"
  from v have b: "0 \<le> tonBalance u" "0 \<le> starsBalance u" by (simp_all add: valid_user_def)
  from d0 d1 b have "- 2147483648 \<le> k \<and> k \<le> 2147483647"
    and "- 2147483648 \<le> starsBalance u + k \<and> starsBalance u + k \<le> 2147483647"
    and "0 \<le> starsBalance u + k"
    unfolding k_def by linarith+
  then have "int4 k" and "int4 (starsBalance u + k)" and "\<not> starsBalance u + k < 0"
    unfolding int4_def by simp_all
  with c u b show ?thesis
    by (simp add: credit_def increment_starsBalance_def check_user_def credited_def
        Math_floor_def k_def)
qed

text \<open>The numbers of a stake of 10 cashed out at 2.50 with a house fee of 1%.\<close>

lemma scenario_numbers:
  assumes "HOUSE_FEE cfg = fl (1 / 100)"
  shows "toNumber 10 = 10"
    and "grossWinnings 10 (5 / 2) = 25"
    and "houseFeeAmount cfg 10 (5 / 2) = 1 / 4"
    and "netWinnings cfg 10 (5 / 2) = 99 / 4"
    and "calculateWinnings cfg 10 (5 / 2) = 59 / 4"
    and "fadd 10 (59 / 4) = 99 / 4"
    and "Decimal_of_number (5 / 2) = 5 / 2"
    and "Decimal_of_number (59 / 4) = 59 / 4"
    and "Decimal_of_number (99 / 4) = 99 / 4"
  unfolding winnings_eval assms by (simp_all add: config_eval number_eval)

lemma scenario_columns:
  "numeric_round 2 (5 / 2) = 5 / 2" "numeric_round 9 (59 / 4) = 59 / 4"
  "numeric_round 9 (99 / 4) = 99 / 4"
  "numeric_fits 8 2 (5 / 2)" "numeric_fits 18 9 (59 / 4)"
  by (simp_all add: column_eval)

lemma scenario_bet:
  assumes "HOUSE_FEE cfg = fl (1 / 100)" and "amount bet = 10"
  shows "cashoutProfit cfg bet (5 / 2) = 59 / 4"
    and "totalPayout cfg bet (5 / 2) = 99 / 4"
    and "cashedOutBet cfg (5 / 2) bet =
           bet\<lparr>cashoutAt := Some (5 / 2), cashedOut := True, profit := Some (59 / 4)\<rparr>"
proof -
  note n = scenario_numbers [OF assms(1)]
  show p: "cashoutProfit cfg bet (5 / 2) = 59 / 4"
    by (simp only: cashoutProfit_def assms(2) n)
  show "totalPayout cfg bet (5 / 2) = 99 / 4"
    by (simp only: totalPayout_def p assms(2) n)
  show "cashedOutBet cfg (5 / 2) bet =
           bet\<lparr>cashoutAt := Some (5 / 2), cashedOut := True, profit := Some (59 / 4)\<rparr>"
    by (simp only: cashedOutBet_def p n scenario_columns)
qed

lemma valid_users_db_flying: "valid_users db_flying"
  by (simp add: valid_users_def db_flying_def valid_user_def numeric_round_def)

lemma db_flying_bet_0:
  "findBet db_flying 0 =
     Some \<lparr>bid = 0, chatId = ''7'', roundId = 0, amount = 10, currency = ton,
           cashoutAt = None, cashedOut = False, profit = None\<rparr>"
  "findRound db_flying 0 = Some (hd (rounds db_flying))"
  "status (hd (rounds db_flying)) = flying"
  "users db_flying ''7'' = Some \<lparr>tonBalance = 40, starsBalance = 40\<rparr>"
  by (simp_all add: db_flying_def findBet_def findRound_def)





section \<open>Bets in Stars\<close>

lemma stars_numbers:
  "cashoutProfit GAME_CONFIG_default
     \<lparr>bid = 1, chatId = ''8'', roundId = 0, amount = 21 / 2, currency = stars,
      cashoutAt = None, cashedOut = False, profit = None\<rparr> (5 / 2) =
   4359343701806285 / 281474976710656"
  "totalPayout GAME_CONFIG_default
     \<lparr>bid = 1, chatId = ''8'', roundId = 0, amount = 21 / 2, currency = stars,
      cashoutAt = None, cashedOut = False, profit = None\<rparr> (5 / 2) =
   7314830957268173 / 281474976710656"
  "Decimal_of_number (4359343701806285 / 281474976710656) = 1239 / 80"
  by (simp_all add: winnings_eval config_eval number_eval)

lemma db_flying_bet_1:
  "findBet db_flying 1 =
     Some \<lparr>bid = 1, chatId = ''8'', roundId = 0, amount = 21 / 2, currency = stars,
           cashoutAt = None, cashedOut = False, profit = None\<rparr>"
  "users db_flying ''8'' = Some \<lparr>tonBalance = 0, starsBalance = 90\<rparr>"
  by (simp_all add: db_flying_def findBet_def)

lemma cashOut_db_flying_1:
  "cashoutBet GAME_CONFIG_default db_flying 1 (5 / 2) =
     ((bet_update db_flying 1 (cashedOutBet GAME_CONFIG_default (5 / 2)))
        \<lparr>users := (users db_flying)(''8'' \<mapsto> \<lparr>tonBalance = 0, starsBalance = 115\<rparr>)\<rparr>,
      Inr \<lparr>bid = 1, chatId = ''8'', roundId = 0, amount = 21 / 2, currency = stars,
           cashoutAt = Some (5 / 2), cashedOut = True, profit = Some (1239 / 80)\<rparr>)"
proof -
  let ?bet = "\<lparr>bid = 1, chatId = ''8'', roundId = 0, amount = 21 / 2, currency = stars,
      cashoutAt = None, cashedOut = False, profit = None\<rparr>"
  have h: "HOUSE_FEE GAME_CONFIG_default = fl (1 / 100)" by (simp add: GAME_CONFIG_default_def)
  note n = scenario_numbers [OF h]
  let ?tx = "bet_update db_flying 1 (cashedOutBet GAME_CONFIG_default (5 / 2))"
  have utx: "\<And>n f. users (bet_update db_flying n f) = users db_flying"
    by (simp add: bet_update_def)
  have fl25: "\<lfloor>7314830957268173 / 281474976710656 :: real\<rfloor> = 25" by simp
  have cb: "cashedOutBet GAME_CONFIG_default (5 / 2) ?bet =
      ?bet\<lparr>cashoutAt := Some (5 / 2), cashedOut := True, profit := Some (1239 / 80)\<rparr>"
    by (simp only: cashedOutBet_def stars_numbers n(7) scenario_columns(1)) (simp add: column_eval)
  have fits: "numeric_fits 18 9 (1239 / 80)" by (simp add: column_eval)
  have f1: "findBet db_flying 1 = Some ?bet" by (rule db_flying_bet_1)
  have nc: "\<not> cashedOut ?bet" by simp
  have r1: "findRound db_flying (roundId ?bet) = Some (hd (rounds db_flying))"
    by (simp add: db_flying_bet_0)
  have fit1: "numeric_fits 8 2 (Decimal_of_number (5 / 2))"
    by (simp only: n scenario_columns)
  have fit2: "numeric_fits 18 9
      (Decimal_of_number (cashoutProfit GAME_CONFIG_default ?bet (5 / 2)))"
    by (simp only: stars_numbers fits)
  have cr: "credit GAME_CONFIG_default ?tx ?bet (5 / 2) =
            Inr (?tx\<lparr>users := (users db_flying)
                      (''8'' \<mapsto> \<lparr>tonBalance = 0, starsBalance = 115\<rparr>)\<rparr>)"
    unfolding credit_def stars_numbers(2)
    by (simp add: increment_starsBalance_def check_user_def utx db_flying_bet_1
        Math_floor_def int4_def fl25)
  have "cashoutBet GAME_CONFIG_default db_flying 1 (5 / 2) =
      (?tx\<lparr>users := (users db_flying)(''8'' \<mapsto> \<lparr>tonBalance = 0, starsBalance = 115\<rparr>)\<rparr>,
       Inr (cashedOutBet GAME_CONFIG_default (5 / 2) ?bet))"
    by (rule cashoutBet_ok [OF f1 nc r1 db_flying_bet_0(3) fit1 fit2 cr])
  then show ?thesis by (simp only: cb) simp
qed

text \<open>
  Claim C10. For a bet in Stars the ledger works on whole Stars. Step 5 of \<^verbatim>\<open>createBet\<close>
  takes \<open>\<lfloor>stake\<rfloor>\<close> from the balance, not the stake; but the transaction never
  commits (step 6 is refused, see claim C4), so after \<^verbatim>\<open>createBet\<close> the database is as
  before and nothing is debited. A cash-out of a bet in Stars that commits adds
  \<open>\<lfloor>stake + profit\<rfloor>\<close> to the balance, \<open>stake + profit\<close> being the payout as the code
  computes it: the credit is a whole number, it is not above the payout and less than one
  Star below it, and the TON balance is untouched.
\<close>

theorem stars_ledger_truncates:
  "(d_currency dat = Stars \<and> users s (d_chatId dat) = Some u \<and> valid_user u \<and>
    sufficient_balance u dat \<and> 0 < d_amount dat
    \<longrightarrow> debit s dat =
          Inr (s\<lparr>users := (users s)
                 (d_chatId dat \<mapsto> u\<lparr>starsBalance := starsBalance u - \<lfloor>d_amount dat\<rfloor>\<rparr>)\<rparr>)) \<and>
   fst (createBet cfg s dat) = s \<and>
   (\<forall>s' b' bet. cashoutBet cfg s betId m = (s', Inr b') \<and> findBet s betId = Some bet \<and>
      currency bet = stars
      \<longrightarrow> (\<exists>v. users s (chatId bet) = Some v \<and>
               users s' =
                 (users s)(chatId bet \<mapsto>
                    v\<lparr>starsBalance := starsBalance v + \<lfloor>totalPayout cfg bet m\<rfloor>\<rparr>))) \<and>
   of_int \<lfloor>totalPayout cfg bet0 m\<rfloor> \<le> totalPayout cfg bet0 m \<and>
   totalPayout cfg bet0 m < of_int \<lfloor>totalPayout cfg bet0 m\<rfloor> + 1"
proof (intro conjI allI impI)
  assume a: "d_currency dat = Stars \<and> users s (d_chatId dat) = Some u \<and> valid_user u \<and>
    sufficient_balance u dat \<and> 0 < d_amount dat"
  then have "debit s dat = Inr (s\<lparr>users := (users s)(d_chatId dat \<mapsto> debited u dat)\<rparr>)"
    by (intro debit_ok) simp_all
  with a show "debit s dat =
          Inr (s\<lparr>users := (users s)
                 (d_chatId dat \<mapsto> u\<lparr>starsBalance := starsBalance u - \<lfloor>d_amount dat\<rfloor>\<rparr>)\<rparr>)"
    by (simp add: debited_def)
next
  show "fst (createBet cfg s dat) = s" by (rule createBet_state)
next
  fix s' b' bet
  assume a: "cashoutBet cfg s betId m = (s', Inr b') \<and> findBet s betId = Some bet \<and>
      currency bet = stars"
  from cashoutBet_Inr [of cfg s betId m s' b'] a
  show "\<exists>v. users s (chatId bet) = Some v \<and>
               users s' =
                 (users s)(chatId bet \<mapsto>
                    v\<lparr>starsBalance := starsBalance v + \<lfloor>totalPayout cfg bet m\<rfloor>\<rparr>)"
    by (auto simp add: credited_def)
next
  show "of_int \<lfloor>totalPayout cfg bet0 m\<rfloor> \<le> totalPayout cfg bet0 m" by simp
  show "totalPayout cfg bet0 m < of_int \<lfloor>totalPayout cfg bet0 m\<rfloor> + 1" by simp
qed

theorem stars_ledger_truncates_witness:
  "users db_betting ''7'' = Some \<lparr>tonBalance = 50, starsBalance = 40\<rparr> \<and>
   d_currency bet_stars_10_5 = Stars \<and> d_amount bet_stars_10_5 = 21 / 2 \<and>
   map_sum id (\<lambda>tx. users tx ''7'') (debit db_betting bet_stars_10_5) =
     Inr (Some \<lparr>tonBalance = 50, starsBalance = 30\<rparr>) \<and>
   users (fst (createBet GAME_CONFIG_default db_betting bet_stars_10_5)) ''7'' =
     Some \<lparr>tonBalance = 50, starsBalance = 40\<rparr> \<and>
   findBet db_flying 1 =
     Some \<lparr>bid = 1, chatId = ''8'', roundId = 0, amount = 21 / 2, currency = stars,
           cashoutAt = None, cashedOut = False, profit = None\<rparr> \<and>
   users db_flying ''8'' = Some \<lparr>tonBalance = 0, starsBalance = 90\<rparr> \<and>
   snd (cashoutBet GAME_CONFIG_default db_flying 1 (5 / 2)) =
     Inr \<lparr>bid = 1, chatId = ''8'', roundId = 0, amount = 21 / 2, currency = stars,
          cashoutAt = Some (5 / 2), cashedOut = True, profit = Some (1239 / 80)\<rparr> \<and>
   users (fst (cashoutBet GAME_CONFIG_default db_flying 1 (5 / 2))) ''8'' =
     Some \<lparr>tonBalance = 0, starsBalance = 115\<rparr>"
proof -
  let ?bet = "\<lparr>bid = 1, chatId = ''8'', roundId = 0, amount = 21 / 2, currency = stars,
      cashoutAt = None, cashedOut = False, profit = None\<rparr>"
  note t1 = stars_ledger_truncates
    [of bet_stars_10_5 db_betting "\<lparr>tonBalance = 50, starsBalance = 40\<rparr>" GAME_CONFIG_default]
  note t2 = stars_ledger_truncates [of _ db_flying _ GAME_CONFIG_default 1 "5 / 2"]
  have u1: "users db_betting ''7'' = Some \<lparr>tonBalance = 50, starsBalance = 40\<rparr>"
    by (simp add: db_betting_def)
  have d1: "d_currency bet_stars_10_5 = Stars" "d_amount bet_stars_10_5 = 21 / 2"
    "d_chatId bet_stars_10_5 = ''7''"
    by (simp_all add: bet_stars_10_5_def)
  have v1: "valid_user \<lparr>tonBalance = 50, starsBalance = 40\<rparr>"
    by (simp add: valid_user_def numeric_round_def)
  have sb: "sufficient_balance \<lparr>tonBalance = 50, starsBalance = 40\<rparr> bet_stars_10_5"
    by (simp add: sufficient_balance_def d1)
  have fl10: "\<lfloor>21 / 2 :: real\<rfloor> = 10" by simp
  from t1 [THEN conjunct1] u1 d1 v1 sb
  have w1: "debit db_betting bet_stars_10_5 =
      Inr (db_betting\<lparr>users := (users db_betting)
             (''7'' \<mapsto> \<lparr>tonBalance = 50, starsBalance = 30\<rparr>)\<rparr>)"
    by (simp add: fl10)
  from t1 [THEN conjunct2, THEN conjunct1] u1
  have w2: "users (fst (createBet GAME_CONFIG_default db_betting bet_stars_10_5)) ''7'' =
     Some \<lparr>tonBalance = 50, starsBalance = 40\<rparr>"
    by simp
  note c = cashOut_db_flying_1
  have e: "cashoutBet GAME_CONFIG_default db_flying 1 (5 / 2) =
      (fst (cashoutBet GAME_CONFIG_default db_flying 1 (5 / 2)),
       Inr \<lparr>bid = 1, chatId = ''8'', roundId = 0, amount = 21 / 2, currency = stars,
            cashoutAt = Some (5 / 2), cashedOut = True, profit = Some (1239 / 80)\<rparr>)"
    unfolding c by simp
  have fl25: "\<lfloor>7314830957268173 / 281474976710656 :: real\<rfloor> = 25" by simp
  have cs: "currency ?bet = stars" by simp
  from t2 [THEN conjunct2, THEN conjunct2, THEN conjunct1] e db_flying_bet_1(1) cs
  have "\<exists>v. users db_flying (chatId ?bet) = Some v \<and>
          users (fst (cashoutBet GAME_CONFIG_default db_flying 1 (5 / 2))) =
            (users db_flying)(chatId ?bet \<mapsto>
               v\<lparr>starsBalance := starsBalance v + \<lfloor>totalPayout GAME_CONFIG_default ?bet (5 / 2)\<rfloor>\<rparr>)"
    by blast
  then have w3: "users (fst (cashoutBet GAME_CONFIG_default db_flying 1 (5 / 2))) =
      (users db_flying)(''8'' \<mapsto> \<lparr>tonBalance = 0, starsBalance = 115\<rparr>)"
    unfolding stars_numbers(2) fl25 by (simp add: db_flying_bet_1(2))
  have res: "snd (cashoutBet GAME_CONFIG_default db_flying 1 (5 / 2)) =
     Inr \<lparr>bid = 1, chatId = ''8'', roundId = 0, amount = 21 / 2, currency = stars,
          cashoutAt = Some (5 / 2), cashedOut = True, profit = Some (1239 / 80)\<rparr>"
    unfolding c by simp
  from u1 d1 w1 w2 db_flying_bet_1 res w3 show ?thesis by simp
qed


section \<open>The cash-out of a stake of 10 at 2.50\<close>

lemma scenario_cashOut:
  assumes f: "findBet s betId = Some bet" and a: "amount bet = 10" and nc: "\<not> cashedOut bet"
    and r: "findRound s (roundId bet) = Some rnd" and st: "status rnd = flying"
    and h: "HOUSE_FEE cfg = fl (1 / 100)"
    and cr: "credit cfg (bet_update s betId (cashedOutBet cfg (5 / 2))) bet (5 / 2) =
               Inr ((bet_update s betId (cashedOutBet cfg (5 / 2)))\<lparr>users := us\<rparr>)"
  shows "cashoutBet cfg s betId (5 / 2) =
           ((bet_update s betId (cashedOutBet cfg (5 / 2)))\<lparr>users := us\<rparr>,
            Inr (bet\<lparr>cashoutAt := Some (5 / 2), cashedOut := True, profit := Some (59 / 4)\<rparr>))"
proof -
  note n = scenario_numbers [OF h]
  note b = scenario_bet [OF h a]
  from cashoutBet_ok [OF f nc r st _ _ cr] show ?thesis
    by (simp add: b n scenario_columns)
qed

text \<open>
  Claim C2, as amended. A bet with stake 10 is cashed out at 2.50 with a house fee of 1%:
  the gross is 25, the fee 0.25, the net payout 24.75 and the profit stored on the bet
  14.75. For a TON bet the balance after the cash-out is the balance before plus 24.75.
  For a Stars bet the balance after the cash-out is the balance before plus 24. The
  amounts are computed in binary floating point (every operation rounds to the nearest
  double), passed on as the shortest decimal that denotes the result and stored at the
  scale of the columns; in this scenario every intermediate result is exact. The user is
  a row the database can hold, and the new balance fits its column.
\<close>

theorem cashOut_10_at_2_50:
  assumes "findBet s betId = Some bet" and "amount bet = 10" and "\<not> cashedOut bet"
    and "findRound s (roundId bet) = Some rnd" and "status rnd = flying"
    and "users s (chatId bet) = Some u" and "valid_user u"
    and "HOUSE_FEE cfg = fl (1 / 100)"
  shows "grossWinnings (toNumber (amount bet)) (5 / 2) = 25 \<and>
         houseFeeAmount cfg (toNumber (amount bet)) (5 / 2) = 1 / 4 \<and>
         netWinnings cfg (toNumber (amount bet)) (5 / 2) = 99 / 4 \<and>
         totalPayout cfg bet (5 / 2) = 99 / 4 \<and>
         25 - 1 / 4 = (99 / 4 :: real) \<and>
         (currency bet = ton \<and> tonBalance u + 99 / 4 \<le> 999999999999999999 / 10 ^ 9
          \<longrightarrow> snd (cashoutBet cfg s betId (5 / 2)) =
                Inr (bet\<lparr>cashoutAt := Some (5 / 2), cashedOut := True,
                         profit := Some (59 / 4)\<rparr>) \<and>
              users (fst (cashoutBet cfg s betId (5 / 2))) =
                (users s)(chatId bet \<mapsto> u\<lparr>tonBalance := tonBalance u + 99 / 4\<rparr>)) \<and>
         (currency bet = stars \<and> starsBalance u + 24 \<le> 2147483647
          \<longrightarrow> snd (cashoutBet cfg s betId (5 / 2)) =
                Inr (bet\<lparr>cashoutAt := Some (5 / 2), cashedOut := True,
                         profit := Some (59 / 4)\<rparr>) \<and>
              users (fst (cashoutBet cfg s betId (5 / 2))) =
                (users s)(chatId bet \<mapsto> u\<lparr>starsBalance := starsBalance u + 24\<rparr>))"
proof -
  note n = scenario_numbers [OF assms(8)]
  note b = scenario_bet [OF assms(8) assms(2)]
  let ?tx = "bet_update s betId (cashedOutBet cfg (5 / 2))"
  have utx: "users ?tx = users s" by (simp add: bet_update_def)
  have g1: "grossWinnings (toNumber (amount bet)) (5 / 2) = 25"
    by (simp only: assms(2) n)
  have g2: "houseFeeAmount cfg (toNumber (amount bet)) (5 / 2) = 1 / 4"
    by (simp only: assms(2) n)
  have g3: "netWinnings cfg (toNumber (amount bet)) (5 / 2) = 99 / 4"
    by (simp only: assms(2) n)
  have g4: "25 - 1 / 4 = (99 / 4 :: real)" by simp
  have g5: "currency bet = ton \<and> tonBalance u + 99 / 4 \<le> 999999999999999999 / 10 ^ 9
          \<longrightarrow> snd (cashoutBet cfg s betId (5 / 2)) =
                Inr (bet\<lparr>cashoutAt := Some (5 / 2), cashedOut := True,
                         profit := Some (59 / 4)\<rparr>) \<and>
              users (fst (cashoutBet cfg s betId (5 / 2))) =
                (users s)(chatId bet \<mapsto> u\<lparr>tonBalance := tonBalance u + 99 / 4\<rparr>)"
  proof
    assume c: "currency bet = ton \<and> tonBalance u + 99 / 4 \<le> 999999999999999999 / 10 ^ 9"
    from assms(7) have "0 \<le> tonBalance u" "numeric_round 9 (tonBalance u) = tonBalance u"
      by (simp_all add: valid_user_def)
    then have rr: "numeric_round 9 (tonBalance u + 99 / 4) = tonBalance u + 99 / 4"
      by (intro numeric_round_add) (simp_all add: scenario_columns)
    from c have cu: "credited cfg bet (5 / 2) u = u\<lparr>tonBalance := tonBalance u + 99 / 4\<rparr>"
      by (simp add: credited_def b n rr)
    have "credit cfg ?tx bet (5 / 2) =
            Inr (?tx\<lparr>users := (users ?tx)(chatId bet \<mapsto> credited cfg bet (5 / 2) u)\<rparr>)"
      using c assms(6,7) by (intro credit_ton_ok) (simp_all add: utx b n)
    then have "credit cfg ?tx bet (5 / 2) =
            Inr (?tx\<lparr>users := (users s)(chatId bet \<mapsto> u\<lparr>tonBalance := tonBalance u + 99 / 4\<rparr>)\<rparr>)"
      by (simp only: utx cu)
    from scenario_cashOut [OF assms(1,2,3,4,5,8) this]
    show "snd (cashoutBet cfg s betId (5 / 2)) =
                Inr (bet\<lparr>cashoutAt := Some (5 / 2), cashedOut := True,
                         profit := Some (59 / 4)\<rparr>) \<and>
              users (fst (cashoutBet cfg s betId (5 / 2))) =
                (users s)(chatId bet \<mapsto> u\<lparr>tonBalance := tonBalance u + 99 / 4\<rparr>)"
      by simp
  qed
  have g6: "currency bet = stars \<and> starsBalance u + 24 \<le> 2147483647
          \<longrightarrow> snd (cashoutBet cfg s betId (5 / 2)) =
                Inr (bet\<lparr>cashoutAt := Some (5 / 2), cashedOut := True,
                         profit := Some (59 / 4)\<rparr>) \<and>
              users (fst (cashoutBet cfg s betId (5 / 2))) =
                (users s)(chatId bet \<mapsto> u\<lparr>starsBalance := starsBalance u + 24\<rparr>)"
  proof
    assume c: "currency bet = stars \<and> starsBalance u + 24 \<le> 2147483647"
    have fl24: "\<lfloor>99 / 4 :: real\<rfloor> = 24" by simp
    from c have cu: "credited cfg bet (5 / 2) u = u\<lparr>starsBalance := starsBalance u + 24\<rparr>"
      by (simp add: credited_def b fl24)
    have "credit cfg ?tx bet (5 / 2) =
            Inr (?tx\<lparr>users := (users ?tx)(chatId bet \<mapsto> credited cfg bet (5 / 2) u)\<rparr>)"
      using c assms(6,7) by (intro credit_stars_ok) (simp_all add: utx b fl24)
    then have "credit cfg ?tx bet (5 / 2) =
            Inr (?tx\<lparr>users := (users s)(chatId bet \<mapsto> u\<lparr>starsBalance := starsBalance u + 24\<rparr>)\<rparr>)"
      by (simp only: utx cu)
    from scenario_cashOut [OF assms(1,2,3,4,5,8) this]
    show "snd (cashoutBet cfg s betId (5 / 2)) =
                Inr (bet\<lparr>cashoutAt := Some (5 / 2), cashedOut := True,
                         profit := Some (59 / 4)\<rparr>) \<and>
              users (fst (cashoutBet cfg s betId (5 / 2))) =
                (users s)(chatId bet \<mapsto> u\<lparr>starsBalance := starsBalance u + 24\<rparr>)"
      by simp
  qed
  from g1 g2 g3 b(2) g4 g5 g6 show ?thesis by blast
qed

lemma db_stars_bet_0:
  "findBet db_stars 0 =
     Some \<lparr>bid = 0, chatId = ''8'', roundId = 0, amount = 10, currency = stars,
           cashoutAt = None, cashedOut = False, profit = None\<rparr>"
  "findRound db_stars 0 = Some (hd (rounds db_stars))"
  "status (hd (rounds db_stars)) = flying"
  "users db_stars ''8'' = Some \<lparr>tonBalance = 0, starsBalance = 90\<rparr>"
  by (simp_all add: db_stars_def findBet_def findRound_def)

lemma valid_user_examples:
  "valid_user \<lparr>tonBalance = 40, starsBalance = 40\<rparr>"
  "valid_user \<lparr>tonBalance = 0, starsBalance = 90\<rparr>"
  by (simp_all add: valid_user_def numeric_round_def)

theorem cashOut_10_at_2_50_witness:
  "users db_flying ''7'' = Some \<lparr>tonBalance = 40, starsBalance = 40\<rparr> \<and>
   snd (cashoutBet GAME_CONFIG_default db_flying 0 (5 / 2)) =
     Inr \<lparr>bid = 0, chatId = ''7'', roundId = 0, amount = 10, currency = ton,
          cashoutAt = Some (5 / 2), cashedOut = True, profit = Some (59 / 4)\<rparr> \<and>
   users (fst (cashoutBet GAME_CONFIG_default db_flying 0 (5 / 2))) ''7'' =
     Some \<lparr>tonBalance = 40 + 99 / 4, starsBalance = 40\<rparr> \<and>
   users db_stars ''8'' = Some \<lparr>tonBalance = 0, starsBalance = 90\<rparr> \<and>
   users (fst (cashoutBet GAME_CONFIG_default db_stars 0 (5 / 2))) ''8'' =
     Some \<lparr>tonBalance = 0, starsBalance = 90 + 24\<rparr>"
proof -
  have h: "HOUSE_FEE GAME_CONFIG_default = fl (1 / 100)"
    by (simp add: GAME_CONFIG_default_def)
  from cashOut_10_at_2_50 [of db_flying 0 _ "hd (rounds db_flying)" _ GAME_CONFIG_default,
      OF db_flying_bet_0(1) _ _ _ db_flying_bet_0(3) _ valid_user_examples(1) h]
    db_flying_bet_0
  have t: "snd (cashoutBet GAME_CONFIG_default db_flying 0 (5 / 2)) =
          Inr \<lparr>bid = 0, chatId = ''7'', roundId = 0, amount = 10, currency = ton,
               cashoutAt = Some (5 / 2), cashedOut = True, profit = Some (59 / 4)\<rparr> \<and>
        users (fst (cashoutBet GAME_CONFIG_default db_flying 0 (5 / 2))) =
          (users db_flying)(''7'' \<mapsto> \<lparr>tonBalance = 40 + 99 / 4, starsBalance = 40\<rparr>)"
    by simp
  from cashOut_10_at_2_50 [of db_stars 0 _ "hd (rounds db_stars)" _ GAME_CONFIG_default,
      OF db_stars_bet_0(1) _ _ _ db_stars_bet_0(3) _ valid_user_examples(2) h]
    db_stars_bet_0
  have st: "users (fst (cashoutBet GAME_CONFIG_default db_stars 0 (5 / 2))) =
          (users db_stars)(''8'' \<mapsto> \<lparr>tonBalance = 0, starsBalance = 90 + 24\<rparr>)"
    by simp
  from t st db_flying_bet_0(4) db_stars_bet_0(4) show ?thesis by simp
qed

text \<open>
  The claim as stated fails for a bet in Stars: the stake of 10 Stars cashed out at 2.50
  has the net payout 24.75, and the balance of 90 Stars becomes 114, a credit of 24.
\<close>

theorem cashOut_stars_10_at_2_50_counterexample:
  "findBet db_stars 0 =
     Some \<lparr>bid = 0, chatId = ''8'', roundId = 0, amount = 10, currency = stars,
           cashoutAt = None, cashedOut = False, profit = None\<rparr> \<and>
   users db_stars ''8'' = Some \<lparr>tonBalance = 0, starsBalance = 90\<rparr> \<and>
   totalPayout GAME_CONFIG_default
     \<lparr>bid = 0, chatId = ''8'', roundId = 0, amount = 10, currency = stars,
      cashoutAt = None, cashedOut = False, profit = None\<rparr> (5 / 2) = 99 / 4 \<and>
   snd (cashoutBet GAME_CONFIG_default db_stars 0 (5 / 2)) =
     Inr \<lparr>bid = 0, chatId = ''8'', roundId = 0, amount = 10, currency = stars,
          cashoutAt = Some (5 / 2), cashedOut = True, profit = Some (59 / 4)\<rparr> \<and>
   users (fst (cashoutBet GAME_CONFIG_default db_stars 0 (5 / 2))) ''8'' =
     Some \<lparr>tonBalance = 0, starsBalance = 114\<rparr>"
proof -
  let ?bet = "\<lparr>bid = 0, chatId = ''8'', roundId = 0, amount = 10, currency = stars,
           cashoutAt = None, cashedOut = False, profit = None\<rparr>"
  have h: "HOUSE_FEE GAME_CONFIG_default = fl (1 / 100)" by (simp add: GAME_CONFIG_default_def)
  note n = scenario_numbers [OF h]
  have b: "cashoutProfit GAME_CONFIG_default ?bet (5 / 2) = 59 / 4"
    "totalPayout GAME_CONFIG_default ?bet (5 / 2) = 99 / 4"
    "cashedOutBet GAME_CONFIG_default (5 / 2) ?bet =
       ?bet\<lparr>cashoutAt := Some (5 / 2), cashedOut := True, profit := Some (59 / 4)\<rparr>"
    by (rule scenario_bet [OF h], simp)+
  let ?tx = "bet_update db_stars 0 (cashedOutBet GAME_CONFIG_default (5 / 2))"
  have utx: "users ?tx = users db_stars" by (simp add: bet_update_def)
  have cr: "credit GAME_CONFIG_default ?tx ?bet (5 / 2) =
            Inr (?tx\<lparr>users := (users db_stars)
                      (''8'' \<mapsto> \<lparr>tonBalance = 0, starsBalance = 114\<rparr>)\<rparr>)"
    unfolding credit_def b(2)
    by (simp add: increment_starsBalance_def check_user_def utx db_stars_bet_0
        Math_floor_def int4_def)
  from cashoutBet_ok [OF db_stars_bet_0(1) _ _ db_stars_bet_0(3), of "5 / 2" GAME_CONFIG_default,
      OF _ _ _ _ cr]
  have "cashoutBet GAME_CONFIG_default db_stars 0 (5 / 2) =
      (?tx\<lparr>users := (users db_stars)(''8'' \<mapsto> \<lparr>tonBalance = 0, starsBalance = 114\<rparr>)\<rparr>,
       Inr (cashedOutBet GAME_CONFIG_default (5 / 2) ?bet))"
    by (simp add: db_stars_bet_0 n b scenario_columns)
  with db_stars_bet_0 b show ?thesis by simp
qed


section \<open>One bet for each user and round\<close>

lemma map_pairs_preserve:
  assumes "\<And>x. chatId (g x) = chatId x \<and> roundId (g x) = roundId x"
  shows "map (\<lambda>b. (chatId b, roundId b)) (map g xs) = map (\<lambda>b. (chatId b, roundId b)) xs"
  using assms by (induction xs) simp_all

lemma bet_update_pairs:
  assumes "\<And>x. chatId (f x) = chatId x \<and> roundId (f x) = roundId x"
  shows "map (\<lambda>b. (chatId b, roundId b)) (bets (bet_update s b f)) =
         map (\<lambda>b. (chatId b, roundId b)) (bets s)"
proof -
  have "map (\<lambda>x. (chatId x, roundId x)) (map (\<lambda>x. if bid x = b then f x else x) (bets s)) =
        map (\<lambda>x. (chatId x, roundId x)) (bets s)"
    by (rule map_pairs_preserve) (simp add: assms)
  then show ?thesis by (simp add: bet_update_def)
qed

lemma has_bet_pairs:
  "has_bet s c r \<longleftrightarrow> (c, r) \<in> set (map (\<lambda>b. (chatId b, roundId b)) (bets s))"
  by (auto simp add: has_bet_def)

lemma cashoutBet_pairs:
  "map (\<lambda>b. (chatId b, roundId b)) (bets (fst (cashoutBet cfg s betId m))) =
   map (\<lambda>b. (chatId b, roundId b)) (bets s)"
proof (cases "cashoutBet_tx cfg s betId m")
  case (Inl e)
  then show ?thesis by (simp add: cashoutBet_def transaction_def)
next
  case (Inr p)
  obtain s' b' where p: "p = (s', b')" by (cases p)
  from cashoutBet_tx_Inr [of cfg s betId m s' b'] Inr p obtain bet where
    "credit cfg (bet_update s betId (cashedOutBet cfg m)) bet m = Inr s'"
    by auto
  then have "bets s' = bets (bet_update s betId (cashedOutBet cfg m))"
    by (simp add: credit_same)
  moreover have "map (\<lambda>b. (chatId b, roundId b)) (bets (bet_update s betId (cashedOutBet cfg m))) =
         map (\<lambda>b. (chatId b, roundId b)) (bets s)"
    by (rule bet_update_pairs) (simp add: cashedOutBet_def)
  ultimately show ?thesis
    using Inr p by (simp add: cashoutBet_def transaction_def)
qed

lemma finalizeBet_pairs:
  "map (\<lambda>b. (chatId b, roundId b)) (bets (fst (finalizeBet s betId m))) =
   map (\<lambda>b. (chatId b, roundId b)) (bets s)"
proof -
  have "map (\<lambda>b. (chatId b, roundId b)) (bets (bet_update s betId lostBet)) =
        map (\<lambda>b. (chatId b, roundId b)) (bets s)"
    by (rule bet_update_pairs) (simp add: lostBet_def)
  then show ?thesis
    by (simp add: finalizeBet_def split: option.splits)
qed

lemma finalizeBetsInRound_pairs:
  "map (\<lambda>b. (chatId b, roundId b)) (bets (fst (finalizeBetsInRound s r m))) =
   map (\<lambda>b. (chatId b, roundId b)) (bets s)"
proof -
  have "map (\<lambda>b. (chatId b, roundId b))
          (map (\<lambda>b. if roundId b = r \<and> \<not> cashedOut b then lostBet b else b) (bets s)) =
        map (\<lambda>b. (chatId b, roundId b)) (bets s)"
    by (rule map_pairs_preserve) (simp add: lostBet_def)
  then show ?thesis by (simp add: finalizeBetsInRound_def)
qed

lemma createRound_bets: "bets (fst (createRound cfg now s dat sb cb)) = bets s"
  by (simp add: createRound_def split: option.splits)

lemma updateRoundStatus_bets: "bets (fst (updateRoundStatus now s r st)) = bets s"
  by (simp add: updateRoundStatus_def split: option.splits)

lemma apply_op_pairs:
  "map (\<lambda>b. (chatId b, roundId b)) (bets (apply_op cfg s op)) =
     map (\<lambda>b. (chatId b, roundId b)) (bets s)"
  by (cases op)
    (simp_all add: createBet_state createRound_bets updateRoundStatus_bets cashoutBet_pairs
       finalizeBet_pairs finalizeBetsInRound_pairs)

lemma run_ops_pairs:
  "map (\<lambda>b. (chatId b, roundId b)) (bets (run_ops cfg s ops)) =
     map (\<lambda>b. (chatId b, roundId b)) (bets s)"
  unfolding run_ops_def
  by (induction ops arbitrary: s) (simp_all add: apply_op_pairs)

lemma run_ops_unique: "unique_bets s \<Longrightarrow> unique_bets (run_ops cfg s ops)"
  by (simp add: unique_bets_def run_ops_pairs)

lemma distinct_map_filter_le_1:
  "distinct (map f xs) \<Longrightarrow> length (filter (\<lambda>x. f x = p) xs) \<le> 1"
proof (induction xs)
  case Nil
  then show ?case by simp
next
  case (Cons x xs)
  then have nx: "f x \<notin> f ` set xs" by simp
  have "\<forall>y \<in> set xs. f y \<noteq> f x"
  proof
    fix y
    assume "y \<in> set xs"
    then have "f y \<in> f ` set xs" by (rule imageI)
    with nx show "f y \<noteq> f x" by metis
  qed
  then have "f x = p \<Longrightarrow> filter (\<lambda>y. f y = p) xs = []"
    by (simp add: filter_empty_conv)
  with Cons show ?case by auto
qed

lemma unique_bets_count:
  assumes "unique_bets s"
  shows "length (filter (\<lambda>b. chatId b = c \<and> roundId b = r) (bets s)) \<le> 1"
proof -
  have eq: "(\<lambda>b. chatId b = c \<and> roundId b = r) = (\<lambda>b. (chatId b, roundId b) = (c, r))"
    by auto
  from assms have "distinct (map (\<lambda>b. (chatId b, roundId b)) (bets s))"
    by (simp only: unique_bets_def)
  then show ?thesis
    unfolding eq by (rule distinct_map_filter_le_1)
qed

lemma bet_create_duplicate:
  assumes "CurrencyType_member name \<noteq> None" and "numeric_fits 18 9 a" and "has_bet tx c r"
  shows "bet_create tx c r a name = Inl (ConstraintViolation unique_user_bet_per_round)"
  using assms by (auto simp add: bet_create_def has_bet_def split: option.splits)

text \<open>
  Claim C5. No operation of the ledger changes the user or the round of a bet,
  removes a bet or adds one, so the bets of a database in which every user has at most
  one bet in each round stay that way after any sequence of operations. The unique index
  refuses a second row for a user and a round whenever an insertion gets as far as the
  database. But no call of \<^verbatim>\<open>createBet\<close> gets that far: in every state it may see, the
  transaction throws, at the latest in step 6, where \<^verbatim>\<open>bet.create\<close> is refused for the
  upper-cased currency; so of several calls for the same user and round, racing or not,
  none succeeds and none leaves a bet.
\<close>

theorem one_bet_per_user_and_round:
  "(unique_bets s
      \<longrightarrow> unique_bets (run_ops cfg s ops) \<and>
          length (filter (\<lambda>b. chatId b = c \<and> roundId b = r) (bets (run_ops cfg s ops))) \<le> 1) \<and>
   map (\<lambda>b. (chatId b, roundId b)) (bets (run_ops cfg s ops)) =
     map (\<lambda>b. (chatId b, roundId b)) (bets s) \<and>
   (\<exists>e. createBet cfg s dat = (s, Inl e)) \<and>
   (\<forall>tx. \<exists>e. createBet_tx tx dat = Inl e) \<and>
   (\<forall>tx. bet_create tx (d_chatId dat) (d_roundId dat) (Decimal_of_number (d_amount dat))
           (toUpperCase (currencyName (d_currency dat))) = Inl ValidationError) \<and>
   (\<forall>tx name a. CurrencyType_member name \<noteq> None \<and> numeric_fits 18 9 a \<and> has_bet tx c r
      \<longrightarrow> bet_create tx c r a name = Inl (ConstraintViolation unique_user_bet_per_round))"
proof (intro conjI allI impI)
  assume u: "unique_bets s"
  then show "unique_bets (run_ops cfg s ops)" by (rule run_ops_unique)
  then show "length (filter (\<lambda>b. chatId b = c \<and> roundId b = r) (bets (run_ops cfg s ops))) \<le> 1"
    by (rule unique_bets_count)
next
  show "map (\<lambda>b. (chatId b, roundId b)) (bets (run_ops cfg s ops)) =
     map (\<lambda>b. (chatId b, roundId b)) (bets s)"
    by (rule run_ops_pairs)
next
  show "\<exists>e. createBet cfg s dat = (s, Inl e)" by (rule createBet_fails)
next
  fix tx
  show "\<exists>e. createBet_tx tx dat = Inl e" by (rule createBet_tx_fails)
next
  fix tx
  show "bet_create tx (d_chatId dat) (d_roundId dat) (Decimal_of_number (d_amount dat))
           (toUpperCase (currencyName (d_currency dat))) = Inl ValidationError"
    by (rule bet_create_rejected)
next
  fix tx name a
  assume "CurrencyType_member name \<noteq> None \<and> numeric_fits 18 9 a \<and> has_bet tx c r"
  then show "bet_create tx c r a name = Inl (ConstraintViolation unique_user_bet_per_round)"
    by (intro bet_create_duplicate) simp_all
qed

theorem one_bet_per_user_and_round_witness:
  "map (\<lambda>b. (chatId b, roundId b)) (bets db_flying) = [(''7'', 0), (''8'', 0), (''9'', 0)] \<and>
   length (filter (\<lambda>b. chatId b = ''7'' \<and> roundId b = 0)
     (bets (run_ops GAME_CONFIG_default db_flying
        [CreateBet bet_ton_10, CashoutBet 0 (5 / 2), FinalizeBetsInRound 0 3,
         CreateBet bet_ton_10]))) \<le> 1 \<and>
   map (\<lambda>b. (chatId b, roundId b))
     (bets (run_ops GAME_CONFIG_default db_flying
        [CreateBet bet_ton_10, CashoutBet 0 (5 / 2), FinalizeBetsInRound 0 3,
         CreateBet bet_ton_10])) = [(''7'', 0), (''8'', 0), (''9'', 0)] \<and>
   bet_create db_flying ''7'' 0 10 ''ton'' = Inl (ConstraintViolation unique_user_bet_per_round) \<and>
   run_ops GAME_CONFIG_default db_betting [CreateBet bet_ton_10, CreateBet bet_ton_10] =
     db_betting \<and>
   bets db_betting = []"
proof -
  let ?ops = "[CreateBet bet_ton_10, CashoutBet 0 (5 / 2), FinalizeBetsInRound 0 3,
         CreateBet bet_ton_10]"
  note t = one_bet_per_user_and_round [of db_flying GAME_CONFIG_default ?ops "''7''" 0 bet_ton_10]
  have p: "map (\<lambda>b. (chatId b, roundId b)) (bets db_flying) = [(''7'', 0), (''8'', 0), (''9'', 0)]"
    by (simp add: db_flying_def)
  then have u: "unique_bets db_flying" by (simp add: unique_bets_def)
  from t u have a: "length (filter (\<lambda>b. chatId b = ''7'' \<and> roundId b = 0)
     (bets (run_ops GAME_CONFIG_default db_flying ?ops))) \<le> 1"
    by blast
  from t p have b: "map (\<lambda>b. (chatId b, roundId b))
     (bets (run_ops GAME_CONFIG_default db_flying ?ops)) = [(''7'', 0), (''8'', 0), (''9'', 0)]"
    by simp
  have m: "CurrencyType_member ''ton'' \<noteq> None" by (simp add: CurrencyType_member_def)
  have f: "numeric_fits 18 9 10" by (simp add: column_eval)
  have h: "has_bet db_flying ''7'' 0" by (simp add: has_bet_def db_flying_def)
  from t m f h have d: "bet_create db_flying ''7'' 0 10 ''ton'' =
      Inl (ConstraintViolation unique_user_bet_per_round)"
    by blast
  from one_bet_per_user_and_round [of db_betting GAME_CONFIG_default "[]" "''7''" 0 bet_ton_10]
  have "fst (createBet GAME_CONFIG_default db_betting bet_ton_10) = db_betting" by auto
  then have e: "run_ops GAME_CONFIG_default db_betting [CreateBet bet_ton_10, CreateBet bet_ton_10] =
     db_betting"
    by (simp add: run_ops_def)
  have g: "bets db_betting = []" by (simp add: db_betting_def)
  from p a b d e g show ?thesis by blast
qed


section \<open>What a read of a round discloses\<close>

lemma getRoundById_Some:
  assumes "getRoundById s r = Some rd"
  shows "\<exists>rnd. findRound s r = Some rnd \<and> rd_status rd = status rnd \<and>
           rd_crashPoint rd = (if status rnd = crashed then Some (toNumber (crashPoint rnd)) else None) \<and>
           rd_serverSeed rd = (if status rnd = crashed then Some (serverSeed rnd) else None) \<and>
           rd_hashedServerSeed rd = hashedServerSeed rnd"
  using assms
  by (auto simp add: getRoundById_def convertRoundData_def split: option.splits)

lemma getRound_fields:
  "response_fields (getRound s (Some r)) =
     (case findRound s r of
        None \<Rightarrow> []
      | Some rnd \<Rightarrow>
          [''roundId'', ''status'', ''startTime'', ''endTime'', ''betsCount'']
          @ (if status rnd = crashed then [''crashPoint''] else []))"
  by (simp add: response_fields_def getRound_def getRoundById_def convertRoundData_def
      split: option.splits)

text \<open>
  Claim C9, as amended. \<^verbatim>\<open>getRoundById\<close> returns the crash point and the server seed
  exactly when the round is \<open>crashed\<close>, and then the stored ones; for a round that is
  \<open>betting\<close> or \<open>flying\<close> both fields are absent. The response of the handler
  \<^verbatim>\<open>getRound\<close> has the field \<^verbatim>\<open>crashPoint\<close> exactly when the round exists and is
  \<open>crashed\<close>, and it never has a field \<^verbatim>\<open>serverSeed\<close>.
\<close>

theorem outcome_disclosed_only_after_crash:
  "(\<forall>rd. getRoundById s r = Some rd
      \<longrightarrow> (rd_crashPoint rd \<noteq> None \<longleftrightarrow> rd_status rd = crashed) \<and>
          (rd_serverSeed rd \<noteq> None \<longleftrightarrow> rd_status rd = crashed) \<and>
          (\<exists>rnd. findRound s r = Some rnd \<and> rd_status rd = status rnd \<and>
             (status rnd = crashed
              \<longrightarrow> rd_crashPoint rd = Some (toNumber (crashPoint rnd)) \<and>
                  rd_serverSeed rd = Some (serverSeed rnd)))) \<and>
   (''crashPoint'' \<in> set (response_fields (getRound s (Some r)))
      \<longleftrightarrow> (\<exists>rnd. findRound s r = Some rnd \<and> status rnd = crashed)) \<and>
   ''serverSeed'' \<notin> set (response_fields (getRound s (Some r)))"
proof (intro conjI allI impI)
  fix rd
  assume a: "getRoundById s r = Some rd"
  from getRoundById_Some [OF a] obtain rnd where
    f: "findRound s r = Some rnd" and st: "rd_status rd = status rnd" and
    cp: "rd_crashPoint rd = (if status rnd = crashed then Some (toNumber (crashPoint rnd)) else None)" and
    ss: "rd_serverSeed rd = (if status rnd = crashed then Some (serverSeed rnd) else None)"
    by blast
  show "rd_crashPoint rd \<noteq> None \<longleftrightarrow> rd_status rd = crashed"
    by (cases "status rnd = crashed") (simp_all add: cp st)
  show "rd_serverSeed rd \<noteq> None \<longleftrightarrow> rd_status rd = crashed"
    by (cases "status rnd = crashed") (simp_all add: ss st)
  show "\<exists>rnd. findRound s r = Some rnd \<and> rd_status rd = status rnd \<and>
             (status rnd = crashed
              \<longrightarrow> rd_crashPoint rd = Some (toNumber (crashPoint rnd)) \<and>
                  rd_serverSeed rd = Some (serverSeed rnd))"
    using f st cp ss by simp
next
  show "''crashPoint'' \<in> set (response_fields (getRound s (Some r)))
      \<longleftrightarrow> (\<exists>rnd. findRound s r = Some rnd \<and> status rnd = crashed)"
    by (cases "findRound s r") (simp_all add: getRound_fields)
next
  show "''serverSeed'' \<notin> set (response_fields (getRound s (Some r)))"
    by (cases "findRound s r") (simp_all add: getRound_fields)
qed

theorem outcome_disclosed_only_after_crash_witness:
  "map_option rd_status (getRoundById db_settled 0) = Some crashed \<and>
   map_option rd_crashPoint (getRoundById db_settled 0) = Some (Some 2) \<and>
   map_option rd_serverSeed (getRoundById db_settled 0) = Some (Some ''s'') \<and>
   map_option rd_status (getRoundById db_flying 0) = Some flying \<and>
   map_option rd_crashPoint (getRoundById db_flying 0) = Some None \<and>
   map_option rd_serverSeed (getRoundById db_flying 0) = Some None \<and>
   ''crashPoint'' \<in> set (response_fields (getRound db_settled (Some 0))) \<and>
   ''crashPoint'' \<notin> set (response_fields (getRound db_flying (Some 0)))"
proof -
  have g1: "getRoundById db_settled 0 =
      Some \<lparr>rd_id = 0, rd_crashPoint = Some 2, rd_serverSeed = Some ''s'',
            rd_hashedServerSeed = ''h'', rd_status = crashed,
            rd_houseFee = 5764607523034235 / 576460752303423488,
            rd_startTime = 0, rd_endTime = Some 30000, rd_createdAt = 0,
            rd_betsCount = Some 2, rd_totalBetAmount = Some 13\<rparr>"
    by (simp add: getRoundById_def findRound_def convertRoundData_def db_settled_def number_eval)
  have g2: "getRoundById db_flying 0 =
      Some \<lparr>rd_id = 0, rd_crashPoint = None, rd_serverSeed = None,
            rd_hashedServerSeed = ''h'', rd_status = flying,
            rd_houseFee = 5764607523034235 / 576460752303423488,
            rd_startTime = 0, rd_endTime = None, rd_createdAt = 0,
            rd_betsCount = Some 3, rd_totalBetAmount = Some (103 / 5)\<rparr>"
    by (simp add: getRoundById_def findRound_def convertRoundData_def db_flying_def number_eval)
  have f1: "findRound db_settled 0 = Some (hd (rounds db_settled))"
    "status (hd (rounds db_settled)) = crashed"
    by (simp_all add: findRound_def db_settled_def)
  have f2: "findRound db_flying 0 = Some (hd (rounds db_flying))"
    "status (hd (rounds db_flying)) = flying"
    by (simp_all add: findRound_def db_flying_def)
  from outcome_disclosed_only_after_crash [of db_settled 0] f1
  have c1: "''crashPoint'' \<in> set (response_fields (getRound db_settled (Some 0)))"
    by simp
  from outcome_disclosed_only_after_crash [of db_flying 0] f2
  have c2: "''crashPoint'' \<notin> set (response_fields (getRound db_flying (Some 0)))"
    by simp
  from g1 g2 c1 c2 show ?thesis by simp
qed

text \<open>
  The claim as stated fails for the handler: round 0 of \<open>db_settled\<close> is \<open>crashed\<close>,
  and the response to \<^verbatim>\<open>GET /api/game/round/0\<close> carries the crash point but not the
  server seed.
\<close>

theorem getRound_serverSeed_counterexample:
  "map_option status (findRound db_settled 0) = Some crashed \<and>
   getRound db_settled (Some 0) =
     Response 200
       [(''roundId'', JNat 0), (''status'', JStatus crashed), (''startTime'', JTime 0),
        (''endTime'', JTime 30000), (''betsCount'', JNat 2), (''crashPoint'', JNum 2)] \<and>
   ''serverSeed'' \<notin> set (response_fields (getRound db_settled (Some 0)))"
  by (simp add: getRound_def response_fields_def getRoundById_def findRound_def
      convertRoundData_def db_settled_def number_eval)


section \<open>The multiplier map\<close>

lemma reciprocal_err:
  fixes x d m :: real
  assumes x: "0 < x" and d: "x / 2 \<le> d"
    and dx: "\<bar>d - x\<bar> \<le> x / 2 ^ 53" and md: "\<bar>m - 1 / d\<bar> \<le> (1 / d) / 2 ^ 53"
  shows "\<bar>m - 1 / x\<bar> \<le> (1 / x) / 2 ^ 51"
proof -
  from x d have dpos: "0 < d" by linarith
  have inv: "1 / d \<le> 2 / x"
    using x d dpos by (simp add: field_simps)
  have "1 / d - 1 / x = (x - d) / (d * x)"
    using x dpos by (simp add: field_simps)
  then have "\<bar>1 / d - 1 / x\<bar> = \<bar>x - d\<bar> / (d * x)"
    using x dpos by (simp add: abs_mult)
  also have "\<dots> \<le> (x / 2 ^ 53) / (d * x)"
    using dx x dpos by (intro divide_right_mono) (simp_all add: abs_minus_commute)
  also have "\<dots> = (1 / d) / 2 ^ 53"
    using x dpos by simp
  finally have "\<bar>1 / d - 1 / x\<bar> \<le> (1 / d) / 2 ^ 53" .
  with md have "\<bar>m - 1 / x\<bar> \<le> 2 * ((1 / d) / 2 ^ 53)" by linarith
  also have "\<dots> \<le> 2 * ((2 / x) / 2 ^ 53)"
    using inv by (intro mult_left_mono divide_right_mono) simp_all
  also have "\<dots> = (1 / x) / 2 ^ 51" by simp
  finally show ?thesis .
qed

lemma upper_clamp: "fl (9999 / 10000) = 4503149267407759 / 4503599627370496"
  by (simp add: number_eval)

lemma normalizedToMultiplier_err:
  assumes "0 \<le> n" and "n \<le> fl (9999 / 10000)"
  shows "\<bar>normalizedToMultiplier n - 1 / (1 - n)\<bar> \<le> (1 / (1 - n)) / 2 ^ 51"
proof -
  from assms have x: "0 < 1 - n" by (simp add: upper_clamp)
  have cl: "max 0 (min (fl (9999 / 10000)) n) = n" using assms by simp
  have m: "normalizedToMultiplier n = fl (1 / fl (1 - n))"
    unfolding normalizedToMultiplier_def cl by (simp only: fdiv_def fsub_def)
  have d: "(1 - n) / 2 \<le> fl (1 - n)" by (rule fl_pos [OF x])
  have "0 < (1 - n) / 2" using x by simp
  then have dpos: "0 < fl (1 - n)" using d by (rule less_le_trans)
  have dx: "\<bar>fl (1 - n) - (1 - n)\<bar> \<le> (1 - n) / 2 ^ 53"
    using fl_err [of "1 - n"] x by simp
  have md: "\<bar>fl (1 / fl (1 - n)) - 1 / fl (1 - n)\<bar> \<le> (1 / fl (1 - n)) / 2 ^ 53"
    using fl_err [of "1 / fl (1 - n)"] dpos by simp
  show ?thesis
    unfolding m by (rule reciprocal_err [OF x d dx md])
qed

lemma normalizedToMultiplier_below:
  assumes "n \<le> 0"
  shows "normalizedToMultiplier n = 1"
proof -
  have "0 \<le> fl (9999 / 10000)" by (simp add: upper_clamp)
  with assms have "max 0 (min (fl (9999 / 10000)) n) = 0" by simp
  then show ?thesis
    unfolding normalizedToMultiplier_def by (simp add: number_eval)
qed

lemma normalizedToMultiplier_above:
  assumes "fl (9999 / 10000) \<le> n"
  shows "normalizedToMultiplier n = 5497558138880605 / 549755813888"
proof -
  have "0 \<le> fl (9999 / 10000)" by (simp add: upper_clamp)
  with assms have "max 0 (min (fl (9999 / 10000)) n) = 4503149267407759 / 4503599627370496"
    by (simp add: upper_clamp)
  then show ?thesis
    unfolding normalizedToMultiplier_def by (simp add: number_eval)
qed

lemma nine_tenths: "fl (9 / 10) = 8106479329266893 / 9007199254740992"
  by (simp add: number_eval)

lemma multiplier_examples:
  "normalizedToMultiplier 0 = 1"
  "normalizedToMultiplier (1 / 2) = 2"
  "normalizedToMultiplier (8106479329266893 / 9007199254740992) = 10 + 1 / 2 ^ 49"
  by (simp_all add: normalizedToMultiplier_def number_eval)

lemma rounded_ten:
  "fdiv (of_int (Math_round (fmul (10 + 1 / 2 ^ 49) 100))) 100 = 10"
  by (simp add: number_eval)

text \<open>
  Claim C6, as amended. The map from the normalized value to the multiplier is the
  quotient \<open>1 / (1 - clamp n)\<close> evaluated in binary64 arithmetic, the clamp being to the
  interval from \<open>0\<close> to the number \<^verbatim>\<open>0.9999\<close>. For \<open>n\<close> inside the interval the result
  is within a relative error of \<open>2\<^sup>-\<^sup>5\<^sup>1\<close> of the exact quotient; for \<open>n\<close> at or
  below \<open>0\<close> it is \<open>1\<close>, and for \<open>n\<close> at or above \<^verbatim>\<open>0.9999\<close> it is the multiplier of
  \<^verbatim>\<open>0.9999\<close>. The number \<^verbatim>\<open>0.5\<close> gives exactly \<open>2\<close>. The number \<^verbatim>\<open>0.9\<close> gives
  \<open>10 + 2\<^sup>-\<^sup>4\<^sup>9\<close> (printed \<^verbatim>\<open>10.000000000000002\<close>), which the rounding to two decimals
  of \<^verbatim>\<open>generateCrashMultiplierRounded\<close> turns into \<open>10\<close>.
\<close>

theorem multiplier_map_accuracy:
  "(0 \<le> n \<and> n \<le> fl (9999 / 10000)
      \<longrightarrow> \<bar>normalizedToMultiplier n - 1 / (1 - n)\<bar> \<le> (1 / (1 - n)) / 2 ^ 51) \<and>
   (n \<le> 0 \<longrightarrow> normalizedToMultiplier n = 1) \<and>
   (fl (9999 / 10000) \<le> n
      \<longrightarrow> normalizedToMultiplier n = normalizedToMultiplier (fl (9999 / 10000))) \<and>
   normalizedToMultiplier (1 / 2) = 2 \<and>
   normalizedToMultiplier (fl (9 / 10)) = 10 + 1 / 2 ^ 49 \<and>
   fdiv (of_int (Math_round (fmul (normalizedToMultiplier (fl (9 / 10))) 100))) 100 = 10"
proof (intro conjI impI)
  assume "0 \<le> n \<and> n \<le> fl (9999 / 10000)"
  then show "\<bar>normalizedToMultiplier n - 1 / (1 - n)\<bar> \<le> (1 / (1 - n)) / 2 ^ 51"
    by (simp only: normalizedToMultiplier_err)
next
  assume "n \<le> 0"
  then show "normalizedToMultiplier n = 1" by (rule normalizedToMultiplier_below)
next
  assume a: "fl (9999 / 10000) \<le> n"
  have "normalizedToMultiplier (fl (9999 / 10000)) = 5497558138880605 / 549755813888"
    by (rule normalizedToMultiplier_above) simp
  with normalizedToMultiplier_above [OF a]
  show "normalizedToMultiplier n = normalizedToMultiplier (fl (9999 / 10000))" by simp
next
  show "normalizedToMultiplier (1 / 2) = 2" by (rule multiplier_examples)
next
  show "normalizedToMultiplier (fl (9 / 10)) = 10 + 1 / 2 ^ 49"
    unfolding nine_tenths by (rule multiplier_examples)
next
  have "normalizedToMultiplier (fl (9 / 10)) = 10 + 1 / 2 ^ 49"
    unfolding nine_tenths by (rule multiplier_examples)
  then show "fdiv (of_int (Math_round (fmul (normalizedToMultiplier (fl (9 / 10))) 100))) 100 = 10"
    by (simp only: rounded_ten)
qed

theorem multiplier_map_accuracy_witness:
  "\<bar>normalizedToMultiplier (3 / 4) - 4\<bar> \<le> 4 / 2 ^ 51 \<and>
   normalizedToMultiplier (- 1) = 1 \<and>
   normalizedToMultiplier 2 = 5497558138880605 / 549755813888"
proof -
  have c: "fl (9999 / 10000) = 4503149267407759 / 4503599627370496" by (rule upper_clamp)
  have top: "normalizedToMultiplier (4503149267407759 / 4503599627370496) =
             5497558138880605 / 549755813888"
    by (rule normalizedToMultiplier_above) (simp add: c)
  from multiplier_map_accuracy [of "3 / 4"]
  have a: "\<bar>normalizedToMultiplier (3 / 4) - 4\<bar> \<le> 4 / 2 ^ 51"
    unfolding c by simp
  from multiplier_map_accuracy [of "- 1"]
  have b: "normalizedToMultiplier (- 1) = 1" by simp
  from multiplier_map_accuracy [of 2]
  have d: "normalizedToMultiplier 2 = 5497558138880605 / 549755813888"
    unfolding c top by simp
  from a b d show ?thesis by simp
qed

text \<open>
  The claim as stated fails at \<open>n = 0.9\<close>: the difference \<^verbatim>\<open>1.0 - 0.9\<close> is the number
  \<^verbatim>\<open>0.09999999999999998\<close>, and its reciprocal is \<^verbatim>\<open>10.000000000000002\<close>, not \<open>10\<close>.
\<close>

theorem multiplier_of_nine_tenths_counterexample:
  "fsub 1 (fl (9 / 10)) = 900719925474099 / 9007199254740992 \<and>
   normalizedToMultiplier (fl (9 / 10)) = 5629499534213121 / 562949953421312 \<and>
   normalizedToMultiplier (fl (9 / 10)) \<noteq> 10"
  by (simp add: normalizedToMultiplier_def number_eval)


section \<open>The commitment to the server seed\<close>

text \<open>The model of SHA-256 on the test vector of FIPS 180-4 and on the seed of the examples.\<close>

lemma sha256_hex_abc:
  "sha256_hex ''abc'' = ''ba7816bf8f01cfea414140de5dae2223b00361a396177a9cb410ff61f20015ad''"
  by (simp add: sha_eval)

lemma sha256_hex_s:
  "sha256_hex ''s'' = ''043a718774c572bd8a25adbeb1bfcd5c0256ae11cecf9f9c3f925d0e52beaf89''"
  by (simp add: sha_eval)

lemma sha256_hex_sc:
  "sha256_hex ''sc'' = ''e0b9a8799f32453a478c9122f8b83cee68e16db18f493ac81bc1d474594b5df4''"
  by (simp add: sha_eval)

lemma calculateHash_alone: "calculateHash seed [] = sha256_hex seed"
  by (simp add: calculateHash_def)

lemma find_append_Some:
  "find P xs = Some x \<Longrightarrow> find P (xs @ ys) = Some x"
  by (induction xs) (auto split: if_splits)

lemma createBet_rounds: "rounds (fst (createBet cfg s dat)) = rounds s"
  by (simp add: createBet_state)

lemma cashoutBet_rounds: "rounds (fst (cashoutBet cfg s betId m)) = rounds s"
proof (cases "cashoutBet cfg s betId m")
  case (Pair s' res)
  show ?thesis
  proof (cases res)
    case (Inl e)
    with Pair cashoutBet_Inl [of cfg s betId m s' e] show ?thesis by simp
  next
    case (Inr b')
    with Pair cashoutBet_Inr [of cfg s betId m s' b'] show ?thesis by auto
  qed
qed

lemma finalizeBet_rounds: "rounds (fst (finalizeBet s betId m)) = rounds s"
  by (simp add: finalizeBet_def bet_update_def split: option.splits)

lemma createRound_rounds:
  "rounds (fst (createRound cfg now s dat sb cb)) = rounds s \<or>
   (\<exists>cp. rounds (fst (createRound cfg now s dat sb cb)) =
           rounds s @ [newRound cfg now s (chosenServerSeed dat sb) cp])"
  by (auto simp add: createRound_def split: option.splits)

lemma updateRoundStatus_rounds:
  "rounds (fst (updateRoundStatus now s r st)) = rounds s \<or>
   rounds (fst (updateRoundStatus now s r st)) =
     map (\<lambda>x. if rid x = r then setStatus now st x else x) (rounds s)"
  by (simp add: updateRoundStatus_def split: option.splits)

lemma apply_op_rounds:
  "rounds (apply_op cfg s op) = rounds s \<or>
   (\<exists>now seed cp. rounds (apply_op cfg s op) = rounds s @ [newRound cfg now s seed cp]) \<or>
   (\<exists>now r st. rounds (apply_op cfg s op) =
                  map (\<lambda>x. if rid x = r then setStatus now st x else x) (rounds s))"
proof (cases op)
  case (CreateRound now dat sb cb)
  from createRound_rounds [of cfg now s dat sb cb] show ?thesis
  proof (elim disjE exE)
    assume "rounds (fst (createRound cfg now s dat sb cb)) = rounds s"
    with CreateRound show ?thesis by simp
  next
    fix cp
    assume "rounds (fst (createRound cfg now s dat sb cb)) =
              rounds s @ [newRound cfg now s (chosenServerSeed dat sb) cp]"
    with CreateRound have "rounds (apply_op cfg s op) =
              rounds s @ [newRound cfg now s (chosenServerSeed dat sb) cp]"
      by simp
    then show ?thesis by blast
  qed
next
  case (UpdateRoundStatus now r st)
  from updateRoundStatus_rounds [of now s r st] show ?thesis
  proof
    assume "rounds (fst (updateRoundStatus now s r st)) = rounds s"
    with UpdateRoundStatus show ?thesis by simp
  next
    assume "rounds (fst (updateRoundStatus now s r st)) =
              map (\<lambda>x. if rid x = r then setStatus now st x else x) (rounds s)"
    with UpdateRoundStatus have "rounds (apply_op cfg s op) =
              map (\<lambda>x. if rid x = r then setStatus now st x else x) (rounds s)"
      by simp
    then show ?thesis by blast
  qed
next
  case (CreateBet dat)
  then show ?thesis by (simp add: createBet_rounds)
next
  case (CashoutBet b m)
  then show ?thesis by (simp add: cashoutBet_rounds)
next
  case (FinalizeBet b m)
  then show ?thesis by (simp add: finalizeBet_rounds)
next
  case (FinalizeBetsInRound r m)
  then show ?thesis by (simp add: finalize_rounds)
qed

lemma apply_op_seeds:
  assumes "findRound s r = Some rnd"
  shows "\<exists>rnd'. findRound (apply_op cfg s op) r = Some rnd' \<and>
           hashedServerSeed rnd' = hashedServerSeed rnd \<and> serverSeed rnd' = serverSeed rnd \<and>
           crashPoint rnd' = crashPoint rnd"
proof -
  from apply_op_rounds [of cfg s op] consider
      "rounds (apply_op cfg s op) = rounds s"
    | now seed cp where "rounds (apply_op cfg s op) = rounds s @ [newRound cfg now s seed cp]"
    | now q st where "rounds (apply_op cfg s op) =
                        map (\<lambda>x. if rid x = q then setStatus now st x else x) (rounds s)"
    by blast
  then show ?thesis
  proof cases
    case 1
    with assms show ?thesis by (simp add: findRound_def)
  next
    case 2
    with assms show ?thesis by (simp add: findRound_def find_append_Some)
  next
    case 3
    have "find (\<lambda>x. rid x = r) (map (\<lambda>x. if rid x = q then setStatus now st x else x) (rounds s)) =
          map_option (\<lambda>x. if rid x = q then setStatus now st x else x)
            (find (\<lambda>x. rid x = r) (rounds s))"
      by (rule find_map_rid) (simp add: setStatus_def)
    with 3 assms show ?thesis by (simp add: findRound_def setStatus_def)
  qed
qed

lemma run_ops_seeds:
  "findRound s r = Some rnd \<Longrightarrow>
   \<exists>rnd'. findRound (run_ops cfg s ops) r = Some rnd' \<and>
          hashedServerSeed rnd' = hashedServerSeed rnd \<and> serverSeed rnd' = serverSeed rnd \<and>
          crashPoint rnd' = crashPoint rnd"
proof (induction ops arbitrary: s rnd)
  case Nil
  then show ?case by (simp add: run_ops_def)
next
  case (Cons op ops)
  from apply_op_seeds [OF Cons.prems, of cfg op] obtain rnd1 where
    f: "findRound (apply_op cfg s op) r = Some rnd1" and
    e: "hashedServerSeed rnd1 = hashedServerSeed rnd" "serverSeed rnd1 = serverSeed rnd"
       "crashPoint rnd1 = crashPoint rnd"
    by blast
  from Cons.IH [OF f] e show ?case by (simp add: run_ops_def)
qed

lemma apply_op_committed:
  assumes "\<forall>rnd \<in> set (rounds s). hashedServerSeed rnd = sha256_hex (serverSeed rnd)"
  shows "\<forall>rnd \<in> set (rounds (apply_op cfg s op)). hashedServerSeed rnd = sha256_hex (serverSeed rnd)"
proof -
  from apply_op_rounds [of cfg s op] consider
      "rounds (apply_op cfg s op) = rounds s"
    | now seed cp where "rounds (apply_op cfg s op) = rounds s @ [newRound cfg now s seed cp]"
    | now q st where "rounds (apply_op cfg s op) =
                        map (\<lambda>x. if rid x = q then setStatus now st x else x) (rounds s)"
    by blast
  then show ?thesis
  proof cases
    case 1
    with assms show ?thesis by simp
  next
    case 2
    with assms show ?thesis by (simp add: newRound_def calculateHash_alone)
  next
    case 3
    with assms show ?thesis by (auto simp add: setStatus_def)
  qed
qed

lemma run_ops_committed:
  "\<forall>rnd \<in> set (rounds s). hashedServerSeed rnd = sha256_hex (serverSeed rnd) \<Longrightarrow>
   \<forall>rnd \<in> set (rounds (run_ops cfg s ops)). hashedServerSeed rnd = sha256_hex (serverSeed rnd)"
proof (induction ops arbitrary: s)
  case Nil
  then show ?case by (simp add: run_ops_def)
next
  case (Cons op ops)
  from Cons.IH [OF apply_op_committed [OF Cons.prems, of cfg op]]
  show ?case by (simp add: run_ops_def)
qed

lemma createRound_Inr:
  assumes "createRound cfg now s dat sb cb = (s', Inr rd)"
  shows "\<exists>cp. s' = s\<lparr>rounds := rounds s @ [newRound cfg now s (chosenServerSeed dat sb) cp]\<rparr> \<and>
              rd = convertRoundDataFull (newRound cfg now s (chosenServerSeed dat sb) cp) \<and>
              chosenCrashPoint cfg now dat (chosenServerSeed dat sb) cb = Some cp"
  using assms by (auto simp add: createRound_def split: option.splits if_splits)

lemma verifyRound_empty:
  "verifyRound ss [] e =
     \<lparr>verified = False, verror = Some SeedsEmpty, calculatedMultiplier = None,
      expectedMultiplier = None, hash = None\<rparr>"
  by (simp add: verifyRound_def)

lemma verifyRound_hash:
  "ss \<noteq> [] \<Longrightarrow> cs \<noteq> [] \<Longrightarrow> hash (verifyRound ss cs e) = Some (sha256_hex (ss @ cs))"
  by (simp add: verifyRound_def calculateHash_def split: option.splits)

lemma verifyRound_verified:
  "ss \<noteq> [] \<Longrightarrow> cs \<noteq> [] \<Longrightarrow>
   verified (verifyRound ss cs e) \<longleftrightarrow>
     (\<exists>m. seedsToMultiplier ss cs = Some m \<and> \<bar>fsub m e\<bar> < fl (1 / 100))"
  by (simp add: verifyRound_def split: option.splits)

text \<open>A digest has 64 characters, all of them hexadecimal digits, so it is read as a number.\<close>

lemma length_hex_of: "length (hex_of n v) = n"
proof (induction n v rule: hex_of.induct)
  case (1 n v)
  show ?case
  proof (cases "n = 0")
    case True
    then show ?thesis unfolding hex_of.simps [of n v] by simp
  next
    case False
    with 1 show ?thesis unfolding hex_of.simps [of n v] by simp
  qed
qed

lemma hexdigit_digit: "hexdigit (v mod 16) \<in> set ''0123456789abcdef''"
proof -
  have "v mod 16 < length ''0123456789abcdef''" by simp
  then show ?thesis unfolding hexdigit_def by (rule nth_mem)
qed

lemma hex_of_digits: "set (hex_of n v) \<subseteq> set ''0123456789abcdef''"
proof (induction n v rule: hex_of.induct)
  case (1 n v)
  show ?case
  proof (cases "n = 0")
    case True
    then show ?thesis unfolding hex_of.simps [of n v] by simp
  next
    case False
    with 1 have "set (hex_of (n - 1) (v div 16)) \<subseteq> set ''0123456789abcdef''" by simp
    with hexdigit_digit [of v] False show ?thesis
      unfolding hex_of.simps [of n v] by simp
  qed
qed

lemma length_sha256_hex: "length (sha256_hex x) = 64"
  unfolding sha256_hex_def by (cases "sha256 (map of_char x)") (simp add: length_hex_of)

lemma sha256_hex_digits: "set (sha256_hex x) \<subseteq> set ''0123456789abcdef''"
proof -
  obtain a b c d e f g h where st: "sha256 (map of_char x) = ShaState a b c d e f g h"
    by (cases "sha256 (map of_char x)")
  have "\<And>w. set (hex_of 8 (nat w)) \<subseteq> set ''0123456789abcdef''" by (rule hex_of_digits)
  then show ?thesis unfolding sha256_hex_def st by (simp del: set_simps)
qed

lemma hexDigitValue_digit: "c \<in> set ''0123456789abcdef'' \<Longrightarrow> hexDigitValue c \<noteq> None"
  by (auto simp add: hexDigitValue_def)

lemma hashToNormalized_digest: "hashToNormalized (sha256_hex x) \<noteq> None"
proof -
  have "length (sha256_hex x) = 64" by (rule length_sha256_hex)
  then obtain c cs where h: "sha256_hex x = c # cs" by (cases "sha256_hex x") simp_all
  then have "c \<in> set (sha256_hex x)" by simp
  with sha256_hex_digits [of x] have "c \<in> set ''0123456789abcdef''" by blast
  then have "hexDigitValue c \<noteq> None" by (rule hexDigitValue_digit)
  then show ?thesis
    by (auto simp add: hashToNormalized_def parseInt16_def h split: option.splits)
qed

lemma getRoundById_commitment:
  assumes "getRoundById s r = Some rd"
  shows "\<exists>rnd. findRound s r = Some rnd \<and> rd_hashedServerSeed rd = hashedServerSeed rnd"
  using assms
  by (auto simp add: getRoundById_def convertRoundData_def split: option.splits)

text \<open>
  Claim C7, as amended. The commitment of a round is the SHA-256 digest of the server seed
  alone; \<^verbatim>\<open>createRound\<close> stores it with the new round, which accepts bets, and every
  read of the round returns it, whatever the status. No operation changes the commitment
  or the server seed of a round, so in a database whose rounds all carry the digest of
  their seed, as the rounds \<^verbatim>\<open>createRound\<close> makes do, they still do after any sequence
  of operations: the digest of the disclosed seed is the commitment. \<^verbatim>\<open>verifyRound\<close>
  does not make this comparison. It has no argument for the commitment; it refuses an
  empty client seed, so it never hashes the server seed alone; the hash it returns is the
  digest of server seed and client seed together; and its verdict is whether the
  multiplier of that digest is within 0.01 of the expected multiplier.
\<close>

theorem commitment_is_digest_of_seed:
  "(\<forall>s' rd. createRound cfg now s dat sb cb = (s', Inr rd)
      \<longrightarrow> full_hashedServerSeed rd = sha256_hex (full_serverSeed rd) \<and>
          full_status rd = betting \<and>
          (\<exists>rnd. rounds s' = rounds s @ [rnd] \<and> status rnd = betting \<and>
                 serverSeed rnd = full_serverSeed rd \<and>
                 hashedServerSeed rnd = full_hashedServerSeed rd)) \<and>
   (\<forall>rd. getRoundById s r = Some rd
      \<longrightarrow> (\<exists>rnd. findRound s r = Some rnd \<and> rd_hashedServerSeed rd = hashedServerSeed rnd)) \<and>
   (\<forall>rnd. findRound s r = Some rnd
      \<longrightarrow> (\<exists>rnd'. findRound (run_ops cfg s ops) r = Some rnd' \<and>
                  hashedServerSeed rnd' = hashedServerSeed rnd \<and>
                  serverSeed rnd' = serverSeed rnd)) \<and>
   ((\<forall>rnd \<in> set (rounds s). hashedServerSeed rnd = sha256_hex (serverSeed rnd))
      \<longrightarrow> (\<forall>rnd \<in> set (rounds (run_ops cfg s ops)).
             hashedServerSeed rnd = sha256_hex (serverSeed rnd))) \<and>
   verifyRound ss [] e =
     \<lparr>verified = False, verror = Some SeedsEmpty, calculatedMultiplier = None,
      expectedMultiplier = None, hash = None\<rparr> \<and>
   (ss \<noteq> [] \<and> cs \<noteq> []
      \<longrightarrow> hash (verifyRound ss cs e) = Some (sha256_hex (ss @ cs)) \<and>
          (verified (verifyRound ss cs e) \<longleftrightarrow>
             (\<exists>m. seedsToMultiplier ss cs = Some m \<and> \<bar>fsub m e\<bar> < fl (1 / 100))))"
proof (intro conjI allI impI ballI)
  fix s' rd
  assume a: "createRound cfg now s dat sb cb = (s', Inr rd)"
  from createRound_Inr [OF a] obtain cp where
    s': "s' = s\<lparr>rounds := rounds s @ [newRound cfg now s (chosenServerSeed dat sb) cp]\<rparr>" and
    rd: "rd = convertRoundDataFull (newRound cfg now s (chosenServerSeed dat sb) cp)"
    by blast
  from rd show "full_hashedServerSeed rd = sha256_hex (full_serverSeed rd)"
    by (simp add: convertRoundDataFull_def newRound_def calculateHash_alone)
  from rd show "full_status rd = betting"
    by (simp add: convertRoundDataFull_def newRound_def)
  from s' rd show "\<exists>rnd. rounds s' = rounds s @ [rnd] \<and> status rnd = betting \<and>
                 serverSeed rnd = full_serverSeed rd \<and>
                 hashedServerSeed rnd = full_hashedServerSeed rd"
    by (simp add: convertRoundDataFull_def newRound_def)
next
  fix rd
  assume "getRoundById s r = Some rd"
  then show "\<exists>rnd. findRound s r = Some rnd \<and> rd_hashedServerSeed rd = hashedServerSeed rnd"
    by (rule getRoundById_commitment)
next
  fix rnd
  assume "findRound s r = Some rnd"
  from run_ops_seeds [OF this, of cfg ops]
  show "\<exists>rnd'. findRound (run_ops cfg s ops) r = Some rnd' \<and>
                  hashedServerSeed rnd' = hashedServerSeed rnd \<and>
                  serverSeed rnd' = serverSeed rnd"
    by blast
next
  fix rnd
  assume "\<forall>rnd \<in> set (rounds s). hashedServerSeed rnd = sha256_hex (serverSeed rnd)"
    and "rnd \<in> set (rounds (run_ops cfg s ops))"
  with run_ops_committed [of s cfg ops]
  show "hashedServerSeed rnd = sha256_hex (serverSeed rnd)" by blast
next
  show "verifyRound ss [] e =
     \<lparr>verified = False, verror = Some SeedsEmpty, calculatedMultiplier = None,
      expectedMultiplier = None, hash = None\<rparr>"
    by (rule verifyRound_empty)
next
  assume a: "ss \<noteq> [] \<and> cs \<noteq> []"
  then show "hash (verifyRound ss cs e) = Some (sha256_hex (ss @ cs))"
    by (simp add: verifyRound_hash)
  from a show "verified (verifyRound ss cs e) \<longleftrightarrow>
             (\<exists>m. seedsToMultiplier ss cs = Some m \<and> \<bar>fsub m e\<bar> < fl (1 / 100))"
    by (simp add: verifyRound_verified)
qed

text \<open>The round that \<^verbatim>\<open>createRound\<close> makes of the seed \<open>''s''\<close> and the crash point 1.58.\<close>

lemma seeded_numbers:
  "fl (79 / 50) = 889460926405673 / 562949953421312"
  "Decimal_of_number (889460926405673 / 562949953421312) = 79 / 50"
  "Decimal_of_number (HOUSE_FEE GAME_CONFIG_default) = 1 / 100"
  "numeric_round 2 (79 / 50) = 79 / 50" "numeric_round 3 (1 / 100) = 1 / 100"
  "numeric_fits 8 2 (79 / 50)" "numeric_fits 4 3 (1 / 100)"
  by (simp_all add: GAME_CONFIG_default_def number_eval column_eval)

lemma createRound_seeded:
  "createRound GAME_CONFIG_default 0 db_fresh seeded_round sb cb =
     (db_fresh\<lparr>rounds :=
        [\<lparr>rid = 0, crashPoint = 79 / 50, serverSeed = ''s'',
          hashedServerSeed = sha256_hex ''s'', status = betting, houseFee = 1 / 100,
          startTime = 0, endTime = None, createdAt = 0\<rparr>]\<rparr>,
      Inr (convertRoundDataFull
        \<lparr>rid = 0, crashPoint = 79 / 50, serverSeed = ''s'',
         hashedServerSeed = sha256_hex ''s'', status = betting, houseFee = 1 / 100,
         startTime = 0, endTime = None, createdAt = 0\<rparr>))"
proof -
  have c: "chosenServerSeed seeded_round sb = ''s''"
    by (simp add: chosenServerSeed_def seeded_round_def)
  have p: "chosenCrashPoint GAME_CONFIG_default 0 seeded_round ''s'' cb =
             Some (889460926405673 / 562949953421312)"
    by (simp add: chosenCrashPoint_def seeded_round_def seeded_numbers)
  have n: "newRound GAME_CONFIG_default 0 db_fresh ''s'' (889460926405673 / 562949953421312) =
      \<lparr>rid = 0, crashPoint = 79 / 50, serverSeed = ''s'',
       hashedServerSeed = sha256_hex ''s'', status = betting, houseFee = 1 / 100,
       startTime = 0, endTime = None, createdAt = 0\<rparr>"
    by (simp add: newRound_def db_fresh_def seeded_numbers calculateHash_alone)
  have r0: "rounds db_fresh = []" by (simp add: db_fresh_def)
  show ?thesis
    unfolding createRound_def c p
    by (simp add: seeded_numbers calculateHash_alone length_sha256_hex n r0)
qed

theorem commitment_is_digest_of_seed_witness:
  "map_sum id full_hashedServerSeed
     (snd (createRound GAME_CONFIG_default 0 db_fresh seeded_round [] [])) =
     Inr (sha256_hex ''s'') \<and>
   map_option rd_hashedServerSeed
     (getRoundById (fst (createRound GAME_CONFIG_default 0 db_fresh seeded_round [] [])) 0) =
     Some (sha256_hex ''s'') \<and>
   map_option hashedServerSeed
     (findRound
        (run_ops GAME_CONFIG_default
           (fst (createRound GAME_CONFIG_default 0 db_fresh seeded_round [] []))
           [UpdateRoundStatus 10000 0 flying, UpdateRoundStatus 30000 0 crashed,
            FinalizeBetsInRound 0 (79 / 50), CreateRound 33000 seeded_round [] []]) 0) =
     Some (sha256_hex ''s'') \<and>
   list_all (\<lambda>rnd. hashedServerSeed rnd = sha256_hex (serverSeed rnd))
     (rounds
        (run_ops GAME_CONFIG_default
           (fst (createRound GAME_CONFIG_default 0 db_fresh seeded_round [] []))
           [UpdateRoundStatus 10000 0 flying, UpdateRoundStatus 30000 0 crashed,
            FinalizeBetsInRound 0 (79 / 50), CreateRound 33000 seeded_round [] []])) \<and>
   hash (verifyRound ''s'' ''c'' 2) = Some (sha256_hex ''sc'')"
proof -
  let ?R = "\<lparr>rid = 0, crashPoint = 79 / 50, serverSeed = ''s'',
          hashedServerSeed = sha256_hex ''s'', status = betting, houseFee = 1 / 100,
          startTime = 0, endTime = None, createdAt = 0\<rparr>"
  let ?S = "db_fresh\<lparr>rounds := [?R]\<rparr>"
  let ?ops = "[UpdateRoundStatus 10000 0 flying, UpdateRoundStatus 30000 0 crashed,
            FinalizeBetsInRound 0 (79 / 50), CreateRound 33000 seeded_round [] []]"
  note c = createRound_seeded [of "[]" "[]"]
  have fs: "fst (createRound GAME_CONFIG_default 0 db_fresh seeded_round [] []) = ?S"
    unfolding c by simp
  note t0 = commitment_is_digest_of_seed
    [of GAME_CONFIG_default 0 db_fresh seeded_round "[]" "[]" 0 "[]" "''s''" 2 "''c''"]
  note t1 = commitment_is_digest_of_seed
    [of GAME_CONFIG_default 0 ?S seeded_round "[]" "[]" 0 ?ops "''s''" 2 "''c''"]
  from t0 [THEN conjunct1, rule_format, OF c]
  have a: "map_sum id full_hashedServerSeed
     (snd (createRound GAME_CONFIG_default 0 db_fresh seeded_round [] [])) =
     Inr (sha256_hex ''s'')"
    unfolding c by (simp add: convertRoundDataFull_def)
  have f: "findRound ?S 0 = Some ?R" by (simp add: findRound_def)
  have g: "getRoundById ?S 0 \<noteq> None" by (simp add: getRoundById_def f)
  then obtain rd where rd: "getRoundById ?S 0 = Some rd" by blast
  from t1 [THEN conjunct2, THEN conjunct1, rule_format, OF rd] f
  have "rd_hashedServerSeed rd = sha256_hex ''s''" by simp
  with rd have b: "map_option rd_hashedServerSeed (getRoundById ?S 0) = Some (sha256_hex ''s'')"
    by simp
  from t1 [THEN conjunct2, THEN conjunct2, THEN conjunct1, rule_format, OF f]
  have d: "map_option hashedServerSeed (findRound (run_ops GAME_CONFIG_default ?S ?ops) 0) =
     Some (sha256_hex ''s'')"
    by auto
  have inv: "\<forall>rnd \<in> set (rounds ?S). hashedServerSeed rnd = sha256_hex (serverSeed rnd)"
    by simp
  from t1 [THEN conjunct2, THEN conjunct2, THEN conjunct2, THEN conjunct1] inv
  have "\<forall>rnd \<in> set (rounds (run_ops GAME_CONFIG_default ?S ?ops)).
          hashedServerSeed rnd = sha256_hex (serverSeed rnd)"
    by blast
  then have e: "list_all (\<lambda>rnd. hashedServerSeed rnd = sha256_hex (serverSeed rnd))
     (rounds (run_ops GAME_CONFIG_default ?S ?ops))"
    by (simp only: list_all_iff)
  from t1 have h: "hash (verifyRound ''s'' ''c'' 2) = Some (sha256_hex ''sc'')"
    by simp
  from a b d e h show ?thesis unfolding fs by blast
qed

text \<open>
  The claim as stated fails for the verification. The round made of the seed \<open>''s''\<close>
  carries the commitment \<^verbatim>\<open>043a7187...\<close>. \<^verbatim>\<open>verifyRound\<close>, given this seed, the client
  seed \<open>''c''\<close> and the multiplier 1.58, answers that the round is verified and returns
  the hash \<^verbatim>\<open>e0b9a879...\<close>, which is not the commitment; given the seed alone it refuses
  to verify.
\<close>

lemma seedsToMultiplier_sc:
  "seedsToMultiplier ''s'' ''c'' = Some (7118064844903581 / 4503599627370496)"
  unfolding seedsToMultiplier_def calculateHash_def
  by (simp add: sha256_hex_sc hashToNormalized_def parseInt16_def hexDigitValue_def
      normalizedToMultiplier_def number_eval)

theorem verifyRound_ignores_commitment_counterexample:
  "map (\<lambda>rnd. (serverSeed rnd, hashedServerSeed rnd, crashPoint rnd, status rnd))
     (rounds (fst (createRound GAME_CONFIG_default 0 db_fresh seeded_round [] []))) =
     [(''s'', ''043a718774c572bd8a25adbeb1bfcd5c0256ae11cecf9f9c3f925d0e52beaf89'',
       79 / 50, betting)] \<and>
   verifyRound ''s'' ''c'' (fl (79 / 50)) =
     \<lparr>verified = True, verror = None,
      calculatedMultiplier = Some (7118064844903581 / 4503599627370496),
      expectedMultiplier = Some (889460926405673 / 562949953421312),
      hash = Some ''e0b9a8799f32453a478c9122f8b83cee68e16db18f493ac81bc1d474594b5df4''\<rparr> \<and>
   verifyRound ''s'' [] (fl (79 / 50)) =
     \<lparr>verified = False, verror = Some SeedsEmpty, calculatedMultiplier = None,
      expectedMultiplier = None, hash = None\<rparr>"
proof -
  have a: "map (\<lambda>rnd. (serverSeed rnd, hashedServerSeed rnd, crashPoint rnd, status rnd))
     (rounds (fst (createRound GAME_CONFIG_default 0 db_fresh seeded_round [] []))) =
     [(''s'', ''043a718774c572bd8a25adbeb1bfcd5c0256ae11cecf9f9c3f925d0e52beaf89'',
       79 / 50, betting)]"
    unfolding createRound_seeded by (simp add: sha256_hex_s)
  have d: "\<bar>fsub (7118064844903581 / 4503599627370496) (889460926405673 / 562949953421312)\<bar>
            < fl (1 / 100)"
    by (simp add: number_eval)
  have b: "verifyRound ''s'' ''c'' (fl (79 / 50)) =
     \<lparr>verified = True, verror = None,
      calculatedMultiplier = Some (7118064844903581 / 4503599627370496),
      expectedMultiplier = Some (889460926405673 / 562949953421312),
      hash = Some ''e0b9a8799f32453a478c9122f8b83cee68e16db18f493ac81bc1d474594b5df4''\<rparr>"
    unfolding verifyRound_def seedsToMultiplier_sc seeded_numbers(1)
    using d by (simp add: calculateHash_def sha256_hex_sc)
  from a b show ?thesis by (simp add: verifyRound_empty)
qed


end
